theory Spec2Isabelle
  imports Complex_Main
begin

section \<open>Report lines\<close>

text \<open>
  The program reports by printing lines to standard output. A line is modelled by the
  format string that produced it and the values it was given, not by its rendered text:
  \<open>Line src sev msg\<close> stands for the tab-separated form \<open>src TAB severity TAB message\<close>,
  where \<open>src\<close> is either the quoted path of the file under check (\<open>%q\<close> of \<open>path\<close>) or
  the literal name of the reporting function. Strings are byte lists, as Go strings are.
\<close>

datatype severity = ERROR | WARNING

datatype error =
    ErrSyntax \<comment> \<open>\<open>strconv.ErrSyntax\<close>\<close>
  | ErrRange \<comment> \<open>\<open>strconv.ErrRange\<close>\<close>
  | PathError string \<comment> \<open>an error of \<open>os.Lstat\<close>, \<open>os.Stat\<close>, \<open>os.Open\<close>, a directory read or a file read\<close>
  | XMLError string \<comment> \<open>an error of the XML parser\<close>
  | SpellerError string \<comment> \<open>an error of \<open>aspell.NewSpeller\<close>\<close>

text \<open>
  A \<open>float64\<close> is modelled by the rational number it denotes. Only non-negative values
  and \<open>+Inf\<close> can arise in this program: floats come from the constants below and from
  \<open>strconv.ParseFloat\<close> applied to a string of digits and dots.
\<close>

datatype float64 = Finite rat | PosInf

datatype source = File string | Func string

datatype message =
    KeywordsMissing
  | WidthTooSmall float64
  | HeightTooSmall float64
  | WidthUnits string
  | HeightUnits string
  | IdentifierMissing
  | KeywordsMisspelled string
  | TextMisspelled string
  | DuplicateName string
  | DuplicateSize string
  | DuplicateHash string
  | UnableToConvert string error
  | CouldNotParse error
  | SpellerFailed error
  | UnableToOpen string error
  | UnableToHash string error
  | UnableToAccess string error
  | UnableToWalk string error

datatype line =
    Line source severity message
  | PrintSvgTrace string string string \<comment> \<open>verbose: width, height, viewBox\<close>
  | PrintSvgKeywords string \<comment> \<open>verbose, schema-bound variant: joined keywords\<close>
  | PrintSvgIdentifier string \<comment> \<open>verbose, schema-bound variant\<close>
  | VisitTrace string \<comment> \<open>verbose: the path being visited\<close>
  | GetFileSizePrint string error
      \<comment> \<open>\<open>getFileSize\<close> calls \<open>fmt.Print\<close>, not \<open>Printf\<close>: the raw format string, then path and error\<close>
  | TextsCount string nat nat \<comment> \<open>schema-bound variant of \<open>checkTspanSpelling\<close>\<close>

fun isDiagnostic :: "line \<Rightarrow> bool" where
  "isDiagnostic (Line (File p) sev m) = True"
| "isDiagnostic l = False"


section \<open>Unit Converter\<close>

subsection \<open>Conversion to \<open>float64\<close>\<close>

text \<open>
  Go converts an exact constant, and \<open>strconv.ParseFloat\<close> a decimal string, to the nearest
  \<open>float64\<close>, ties to the even significand (IEEE 754 binary64: 53 significant bits,
  least normal exponent \<open>-1022\<close>, overflow from \<open>2^1024\<close> on).
\<close>

definition pow2 :: "int \<Rightarrow> rat" where
  "pow2 e = (if 0 \<le> e then 2 ^ nat e else 1 / 2 ^ nat (- e))"

text \<open>
  The binary exponent of a positive number: \<open>e\<close> with \<open>2^e \<le> q < 2^(e+1)\<close>, searched
  from \<open>0\<close>. The search gives up after 1100 steps: beyond \<open>2^1024\<close> the result is \<open>+Inf\<close> and
  below \<open>2^-1022\<close> the spacing of the floats no longer depends on the exponent.
\<close>

fun findExponent :: "nat \<Rightarrow> rat \<Rightarrow> int \<Rightarrow> int" where
  "findExponent fuel q e =
     (if fuel = 0 then e
      else if q < pow2 e then findExponent (fuel - 1) q (e - 1)
      else if pow2 (e + 1) \<le> q then findExponent (fuel - 1) q (e + 1)
      else e)"

declare findExponent.simps [simp del]

definition roundEven :: "rat \<Rightarrow> int" where
  "roundEven m =
     (let n = \<lfloor>m\<rfloor>; r = m - of_int n
      in if r < 1 / 2 then n
         else if 1 / 2 < r then n + 1
         else if even n then n else n + 1)"

definition roundFloat64 :: "rat \<Rightarrow> float64" where
  "roundFloat64 q =
     (if q = 0 then Finite 0
      else let ulp = pow2 (max (findExponent 1100 q 0) (- 1022) - 52);
               r = of_int (roundEven (q / ulp)) * ulp
           in if pow2 1024 \<le> r then PosInf else Finite r)"

fun float64_less :: "float64 \<Rightarrow> float64 \<Rightarrow> bool" where
  "float64_less (Finite a) (Finite b) = (a < b)"
| "float64_less (Finite a) PosInf = True"
| "float64_less PosInf b = False"

subsection \<open>Constants\<close>

text \<open>Go evaluates untyped constant expressions exactly; they are rounded where used as \<open>float64\<close>.\<close>

definition pxPerIn :: rat where "pxPerIn = 96"
definition pxPerMm :: rat where "pxPerMm = 0.039370787 * pxPerIn"
definition pxPerPt :: rat where "pxPerPt = 0.0138888889 * pxPerIn"
definition pxPerPc :: rat where "pxPerPc = 0.1666666667 * pxPerIn"
definition pxPerFt :: rat where "pxPerFt = pxPerIn * 12"
definition pxPerCm :: rat where "pxPerCm = 0.3937007874 * pxPerIn"
definition pxPerM :: rat where "pxPerM = 0.0254 * pxPerIn"

definition minWidth :: rat where "minWidth = 80"
definition minHeight :: rat where "minHeight = 80"

subsection \<open>\<open>toFloat\<close>\<close>

definition isDigit :: "char \<Rightarrow> bool" where
  "isDigit c = (c \<in> set ''0123456789'')"

text \<open>
  The regular expression \<open>[^0-9\.]\<close>: one character that is neither a digit nor a dot.
  A rune outside ASCII matches with all its bytes, none of which is a digit or a dot.
\<close>

definition matchesNonNumeric :: "char \<Rightarrow> bool" where
  "matchesNonNumeric c = (\<not> (isDigit c \<or> c = CHR ''.''))"

text \<open>\<open>re.ReplaceAllString(s, "")\<close>: every match is replaced by the empty string.\<close>

fun ReplaceAllString :: "string \<Rightarrow> string" where
  "ReplaceAllString [] = []"
| "ReplaceAllString (c # cs) =
     (if matchesNonNumeric c then ReplaceAllString cs else c # ReplaceAllString cs)"

text \<open>
  \<open>strconv.ParseFloat(s, 64)\<close> on the strings \<open>toFloat\<close> hands it: digits with at most one
  dot. The scan follows the library's digit loop: a second dot or a foreign character
  stops it before the end of the string, which is a syntax error, as is a string without
  a digit. The sign, exponent, hexadecimal, underscore and \<open>inf\<close>/\<open>nan\<close> forms need
  characters the regular expression has removed. The loop returns the decimal mantissa
  and the number of digits after the dot.
\<close>

fun readFloat :: "string \<Rightarrow> bool \<Rightarrow> bool \<Rightarrow> nat \<Rightarrow> nat \<Rightarrow> (nat \<times> nat) option" where
  "readFloat [] sawdot sawdigits mantissa dp =
     (if sawdigits then Some (mantissa, dp) else None)"
| "readFloat (c # cs) sawdot sawdigits mantissa dp =
     (if c = CHR ''.'' then
        (if sawdot then None else readFloat cs True sawdigits mantissa dp)
      else if isDigit c then
        readFloat cs sawdot True (10 * mantissa + (of_char c - 48)) (if sawdot then dp + 1 else dp)
      else None)"

text \<open>
  On a syntax error the library returns \<open>0\<close> and \<open>ErrSyntax\<close>; on a value beyond the
  largest \<open>float64\<close> it returns \<open>+Inf\<close> and \<open>ErrRange\<close>.
\<close>

definition ParseFloat :: "string \<Rightarrow> float64 \<times> error option" where
  "ParseFloat s =
     (case readFloat s False False 0 0 of
        None \<Rightarrow> (Finite 0, Some ErrSyntax)
      | Some (mantissa, dp) \<Rightarrow>
          (case roundFloat64 (of_nat mantissa / 10 ^ dp) of
             PosInf \<Rightarrow> (PosInf, Some ErrRange)
           | Finite r \<Rightarrow> (Finite r, None)))"

text \<open>\<open>toFloat\<close> returns the parsed value and the lines it printed.\<close>

definition toFloat :: "string \<Rightarrow> float64 \<times> line list" where
  "toFloat s =
     (case ParseFloat (ReplaceAllString s) of
        (f, Some err) \<Rightarrow> (f, [Line (Func ''toFloat'') ERROR (UnableToConvert s err)])
      | (f, None) \<Rightarrow> (f, []))"

subsection \<open>\<open>getUnitConversion\<close>\<close>

text \<open>\<open>strings.HasSuffix\<close>: byte-wise, hence case-sensitive.\<close>

definition HasSuffix :: "string \<Rightarrow> string \<Rightarrow> bool" where
  "HasSuffix s suffix =
     (length suffix \<le> length s \<and> drop (length s - length suffix) s = suffix)"

definition getUnitConversion :: "string \<Rightarrow> float64" where
  "getUnitConversion v =
     (if HasSuffix v ''in'' then roundFloat64 pxPerIn
      else if HasSuffix v ''mm'' then roundFloat64 pxPerMm
      else if HasSuffix v ''pt'' then roundFloat64 pxPerPt
      else if HasSuffix v ''pc'' then roundFloat64 pxPerPc
      else if HasSuffix v ''ft'' then roundFloat64 pxPerFt
      else if HasSuffix v ''cm'' then roundFloat64 pxPerCm
      else if HasSuffix v ''m'' then roundFloat64 pxPerM
      else Finite 1)"

text \<open>
  What the specification calls a numeric remainder: only digits and dots, at least one
  digit, at most one dot.
\<close>

definition numeric :: "string \<Rightarrow> bool" where
  "numeric r =
     (list_all (\<lambda>c. isDigit c \<or> c = CHR ''.'') r \<and> list_ex isDigit r \<and>
      count_list r (CHR ''.'') \<le> 1)"


section \<open>Library functions on strings\<close>

text \<open>\<open>strings.Split(s, sep)\<close> for a separator of one character; \<open>Split "" sep\<close> is \<open>[""]\<close>.\<close>

fun Split :: "string \<Rightarrow> char \<Rightarrow> string list" where
  "Split [] sep = [[]]"
| "Split (c # cs) sep =
     (if c = sep then [] # Split cs sep
      else (case Split cs sep of w # ws \<Rightarrow> (c # w) # ws | [] \<Rightarrow> [[c]]))"

text \<open>\<open>strings.Join(elems, sep)\<close>.\<close>

fun Join :: "string list \<Rightarrow> string \<Rightarrow> string" where
  "Join [] sep = []"
| "Join [e] sep = e"
| "Join (e # e' # es) sep = e @ sep @ Join (e' # es) sep"

text \<open>\<open>strings.Replace(s, old, "", -1)\<close> for an \<open>old\<close> of one character: every occurrence goes.\<close>

definition Replace :: "string \<Rightarrow> char \<Rightarrow> string" where
  "Replace s old = filter (\<lambda>c. c \<noteq> old) s"

text \<open>The spell checker: \<open>aspell.NewSpeller\<close> gives an error or a speller, used through \<open>Check\<close>.\<close>

type_synonym speller = "string \<Rightarrow> bool"


section \<open>The variant that queries the document tree\<close>

subsection \<open>Documents\<close>

text \<open>
  An \<open>xmlquery\<close> document: elements with their qualified name as written (\<open>rdf:li\<close>),
  attributes and children, and character data. \<open>Find\<close> stands for the queries \<open>//name\<close>
  of the source: the elements of that name, in document order. \<open>FindOne\<close> gives the
  first of them, or \<open>nil\<close>.
\<close>

datatype node = Element string "(string \<times> string) list" "node list" | CharData string

fun Find :: "string \<Rightarrow> node \<Rightarrow> node list" where
  "Find name (Element nm attrs children) =
     (if nm = name then [Element nm attrs children] else []) @ concat (map (Find name) children)"
| "Find name (CharData t) = []"

definition FindOne :: "string \<Rightarrow> node \<Rightarrow> node option" where
  "FindOne name node = (case Find name node of [] \<Rightarrow> None | n # ns \<Rightarrow> Some n)"

fun InnerText :: "node \<Rightarrow> string" where
  "InnerText (Element nm attrs children) = concat (map InnerText children)"
| "InnerText (CharData t) = t"

fun SelectAttr :: "node \<Rightarrow> string \<Rightarrow> string" where
  "SelectAttr (Element nm attrs children) name =
     (case map_of attrs name of Some v \<Rightarrow> v | None \<Rightarrow> [])"
| "SelectAttr (CharData t) name = []"

subsection \<open>Checks\<close>

text \<open>
  Each check returns the lines it prints. \<open>checkSize\<close>, \<open>checkUnits\<close> and \<open>printSvg\<close> call
  \<open>SelectAttr\<close> on the result of \<open>FindOne\<close> without a test for \<open>nil\<close>: on a document with
  no \<open>svg\<close> element they panic before printing, which is the value \<open>None\<close>.
\<close>

definition printSvg :: "node \<Rightarrow> line list option" where
  "printSvg node =
     (case FindOne ''svg'' node of
        None \<Rightarrow> None
      | Some n \<Rightarrow>
          Some [PrintSvgTrace (SelectAttr n ''width'') (SelectAttr n ''height'')
                  (SelectAttr n ''viewBox'')])"

definition checkKeywords :: "string \<Rightarrow> node \<Rightarrow> line list" where
  "checkKeywords path node =
     (let nodes = Find ''rdf:li'' node
      in if length nodes = 0 then [Line (File path) ERROR KeywordsMissing] else [])"

definition checkSize :: "string \<Rightarrow> node \<Rightarrow> line list option" where
  "checkSize path node =
     (case FindOne ''svg'' node of
        None \<Rightarrow> None
      | Some n \<Rightarrow>
          (case toFloat (SelectAttr n ''width'') of (w, printedW) \<Rightarrow>
           case toFloat (SelectAttr n ''height'') of (h, printedH) \<Rightarrow>
             Some (printedW @ printedH @
               (if float64_less w (roundFloat64 minWidth)
                then [Line (File path) ERROR (WidthTooSmall w)] else []) @
               (if float64_less h (roundFloat64 minHeight)
                then [Line (File path) ERROR (HeightTooSmall h)] else []))))"

definition checkUnits :: "string \<Rightarrow> node \<Rightarrow> line list option" where
  "checkUnits path node =
     (case FindOne ''svg'' node of
        None \<Rightarrow> None
      | Some n \<Rightarrow>
          (let w = SelectAttr n ''width''; h = SelectAttr n ''height''
           in Some (
               (if getUnitConversion w \<noteq> Finite 1
                then [Line (File path) WARNING (WidthUnits w)] else []) @
               (if getUnitConversion h \<noteq> Finite 1
                then [Line (File path) WARNING (HeightUnits h)] else []))))"

definition checkIdentifier :: "string \<Rightarrow> node \<Rightarrow> line list" where
  "checkIdentifier path node =
     (case FindOne ''dc:identifier'' node of
        None \<Rightarrow> [Line (File path) ERROR IdentifierMissing]
      | Some n \<Rightarrow> [])"

text \<open>The loops of \<open>checkKeywordSpelling\<close>, with \<open>misspelled\<close> as the accumulator.\<close>

fun keywordWords :: "speller \<Rightarrow> string list \<Rightarrow> string list \<Rightarrow> string list" where
  "keywordWords check [] misspelled = misspelled"
| "keywordWords check (word # words) misspelled =
     keywordWords check words (if \<not> check word then misspelled @ [word] else misspelled)"

fun keywordLoop :: "speller \<Rightarrow> string list \<Rightarrow> string list \<Rightarrow> string list" where
  "keywordLoop check [] misspelled = misspelled"
| "keywordLoop check (keyword # keywords) misspelled =
     keywordLoop check keywords
       (if keyword \<noteq> [] then keywordWords check (Split keyword (CHR '' '')) misspelled
        else misspelled)"

definition checkKeywordSpelling :: "error + speller \<Rightarrow> string \<Rightarrow> node \<Rightarrow> line list" where
  "checkKeywordSpelling newSpeller path node =
     (case newSpeller of
        Inl err \<Rightarrow> [Line (Func ''checkKeywordSpelling'') ERROR (SpellerFailed err)]
      | Inr check \<Rightarrow>
          (let nodes = Find ''rdf:li'' node
           in if length nodes = 0 then []
              else let keywords = map InnerText nodes;
                       misspelled = keywordLoop check keywords []
                   in if length misspelled > 0
                      then [Line (File path) ERROR (KeywordsMisspelled (Join misspelled '', ''))]
                      else []))"

text \<open>The loops of \<open>checkTspanSpelling\<close>: the word is checked without its slashes and listed with them.\<close>

fun tspanWords :: "speller \<Rightarrow> string list \<Rightarrow> string list \<Rightarrow> string list" where
  "tspanWords check [] misspelled = misspelled"
| "tspanWords check (word # words) misspelled =
     tspanWords check words
       (if \<not> check (Replace word (CHR ''/'')) then misspelled @ [word] else misspelled)"

fun tspanLoop :: "speller \<Rightarrow> string list \<Rightarrow> string list \<Rightarrow> string list" where
  "tspanLoop check [] misspelled = misspelled"
| "tspanLoop check (tspan # tspans) misspelled =
     tspanLoop check tspans
       (if tspan \<noteq> [] then tspanWords check (Split tspan (CHR '' '')) misspelled
        else misspelled)"

text \<open>The report of a failed speller carries the name \<open>checkKeywordSpelling\<close> here too.\<close>

definition checkTspanSpelling :: "error + speller \<Rightarrow> string \<Rightarrow> node \<Rightarrow> line list" where
  "checkTspanSpelling newSpeller path node =
     (case newSpeller of
        Inl err \<Rightarrow> [Line (Func ''checkKeywordSpelling'') ERROR (SpellerFailed err)]
      | Inr check \<Rightarrow>
          (let nodes = Find ''svg:tspan'' node
           in if length nodes = 0 then []
              else let tspans = map InnerText nodes;
                       misspelled = tspanLoop check tspans []
                   in if length misspelled > 0
                      then [Line (File path) ERROR (TextMisspelled (Join misspelled '', ''))]
                      else []))"


section \<open>The variant that decodes into a fixed schema\<close>

text \<open>
  The structs \<open>encoding/xml\<close> decodes into; the \<open>XMLName\<close> fields, which the program never
  reads, are left out. A field whose element is absent keeps its zero value, the empty
  string or the empty list. The functions of this variant carry the suffix \<open>Svg\<close>; its
  lines differ from the other variant's in their separators only.
\<close>

record Bag =
  Items :: "string list"

record Subject =
  Bag :: Bag

record Work =
  About :: string
  Subject :: Subject
  Identifier :: string

record Rdf =
  Work :: Work

record Metadata =
  MetadataId :: string
  Rdf :: Rdf

record Tspan =
  TspanId :: string
  X :: string
  Y :: string
  TspanInnerText :: string

record Text =
  Tspans :: "Tspan list"

record Svg =
  Width :: string
  Height :: string
  ViewBox :: string
  Metadata :: Metadata
  Texts :: "Text list"
  GroupedTexts :: "Text list"

definition printSvgSvg :: "Svg \<Rightarrow> line list" where
  "printSvgSvg svg =
     [PrintSvgTrace (Width svg) (Height svg) (ViewBox svg),
      PrintSvgKeywords (Join (Items (Bag (Subject (Work (Rdf (Metadata svg)))))) '', ''),
      PrintSvgIdentifier (Identifier (Work (Rdf (Metadata svg))))]"

definition checkKeywordsSvg :: "string \<Rightarrow> Svg \<Rightarrow> line list" where
  "checkKeywordsSvg path svg =
     (if length (Items (Bag (Subject (Work (Rdf (Metadata svg)))))) = 0
      then [Line (File path) ERROR KeywordsMissing] else [])"

definition checkSizeSvg :: "string \<Rightarrow> Svg \<Rightarrow> line list" where
  "checkSizeSvg path svg =
     (case toFloat (Width svg) of (w, printedW) \<Rightarrow>
      case toFloat (Height svg) of (h, printedH) \<Rightarrow>
        printedW @ printedH @
        (if float64_less w (roundFloat64 minWidth)
         then [Line (File path) ERROR (WidthTooSmall w)] else []) @
        (if float64_less h (roundFloat64 minHeight)
         then [Line (File path) ERROR (HeightTooSmall h)] else []))"

definition checkUnitsSvg :: "string \<Rightarrow> Svg \<Rightarrow> line list" where
  "checkUnitsSvg path svg =
     (if getUnitConversion (Width svg) \<noteq> Finite 1
      then [Line (File path) WARNING (WidthUnits (Width svg))] else []) @
     (if getUnitConversion (Height svg) \<noteq> Finite 1
      then [Line (File path) WARNING (HeightUnits (Height svg))] else [])"

definition checkIdentifierSvg :: "string \<Rightarrow> Svg \<Rightarrow> line list" where
  "checkIdentifierSvg path svg =
     (if Identifier (Work (Rdf (Metadata svg))) = []
      then [Line (File path) ERROR IdentifierMissing] else [])"

definition checkKeywordSpellingSvg :: "error + speller \<Rightarrow> string \<Rightarrow> Svg \<Rightarrow> line list" where
  "checkKeywordSpellingSvg newSpeller path svg =
     (case newSpeller of
        Inl err \<Rightarrow> [Line (Func ''checkKeywordSpelling'') ERROR (SpellerFailed err)]
      | Inr check \<Rightarrow>
          (let keywords = Items (Bag (Subject (Work (Rdf (Metadata svg)))))
           in if length keywords = 0 then []
              else let misspelled = keywordLoop check keywords []
                   in if length misspelled > 0
                      then [Line (File path) ERROR (KeywordsMisspelled (Join misspelled '', ''))]
                      else []))"

text \<open>In this variant \<open>checkTspanSpelling\<close> only prints how many texts it was given.\<close>

definition checkTspanSpellingSvg :: "string \<Rightarrow> Svg \<Rightarrow> line list" where
  "checkTspanSpellingSvg path svg =
     [TextsCount path (length (Texts svg)) (length (GroupedTexts svg))]"

section \<open>Files and directories\<close>

text \<open>
  What the operating system answers for a path: the bytes of the file and the errors, if
  any, of \<open>os.Stat\<close>, of \<open>os.Open\<close> and of reading the opened file. A path that does not
  exist is one whose calls fail.
\<close>

record osFile =
  content :: string
  statError :: "error option"
  openError :: "error option"
  readError :: "error option"

text \<open>
  A directory tree as \<open>filepath.Walk\<close> meets it. Every entry carries the path \<open>Walk\<close> hands
  to its function: a file, a directory with its entries in lexical order, a directory
  whose names cannot be read, and a path whose \<open>Lstat\<close> fails.
\<close>

datatype entry =
    FileEntry string
  | DirEntry string "entry list"
  | UnreadableDir string error
  | BrokenEntry string error

text \<open>
  What a function handed to \<open>Walk\<close> does besides printing: it returns \<open>nil\<close>, returns an
  error, or panics. The functions of this program return only errors they were given by
  the operating system or the parser, never \<open>SkipDir\<close> or \<open>SkipAll\<close>.
\<close>

datatype result = Ok | Failed error | Panicked

type_synonym walkFunc = "string \<Rightarrow> error option \<Rightarrow> line list \<times> result"

text \<open>
  \<open>filepath.Walk\<close>: the function is called on the root and then on every entry below it;
  on a path whose \<open>Lstat\<close> or directory read failed it is called with that error. The
  first call that does not return \<open>nil\<close> ends the walk, and \<open>Walk\<close> returns its error. The
  lines printed by the calls are collected in order.
\<close>

fun walk :: "walkFunc \<Rightarrow> entry \<Rightarrow> line list \<times> result"
  and walkEntries :: "walkFunc \<Rightarrow> entry list \<Rightarrow> line list \<times> result" where
  "walk fn (FileEntry path) = fn path None"
| "walk fn (BrokenEntry path err) = fn path (Some err)"
| "walk fn (UnreadableDir path err) = fn path (Some err)"
| "walk fn (DirEntry path entries) =
     (case fn path None of
        (printed, Ok) \<Rightarrow>
          (case walkEntries fn entries of (printed', r) \<Rightarrow> (printed @ printed', r))
      | (printed, r) \<Rightarrow> (printed, r))"
| "walkEntries fn [] = ([], Ok)"
| "walkEntries fn (e # es) =
     (case walk fn e of
        (printed, Ok) \<Rightarrow>
          (case walkEntries fn es of (printed', r) \<Rightarrow> (printed @ printed', r))
      | (printed, r) \<Rightarrow> (printed, r))"

text \<open>The calls \<open>Walk\<close> makes when none of them fails, in order: path and error.\<close>

fun visits :: "entry \<Rightarrow> (string \<times> error option) list" where
  "visits (FileEntry path) = [(path, None)]"
| "visits (BrokenEntry path err) = [(path, Some err)]"
| "visits (UnreadableDir path err) = [(path, Some err)]"
| "visits (DirEntry path entries) = (path, None) # concat (map visits entries)"

fun runVisits :: "walkFunc \<Rightarrow> (string \<times> error option) list \<Rightarrow> line list \<times> result" where
  "runVisits fn [] = ([], Ok)"
| "runVisits fn ((path, err) # vs) =
     (case fn path err of
        (printed, Ok) \<Rightarrow>
          (case runVisits fn vs of (printed', r) \<Rightarrow> (printed @ printed', r))
      | (printed, r) \<Rightarrow> (printed, r))"

text \<open>
  \<open>filepath.Ext\<close>: the suffix from the last dot of the last path element, empty without a dot.
  The scan runs from the end of the path to the first separator.
\<close>

fun extLoop :: "string \<Rightarrow> string \<Rightarrow> string" where
  "extLoop [] seen = []"
| "extLoop (c # before) seen =
     (if c = CHR ''/'' then []
      else if c = CHR ''.'' then c # seen
      else extLoop before (c # seen))"

definition Ext :: "string \<Rightarrow> string" where
  "Ext path = extLoop (rev path) []"

text \<open>
  \<open>filepath.Base\<close>: the last element of the path, after trailing separators are dropped;
  \<open>"."\<close> for the empty path and \<open>"/"\<close> for a path of separators only.
\<close>

definition Base :: "string \<Rightarrow> string" where
  "Base path =
     (if path = [] then ''.''
      else let stripped = dropWhile (\<lambda>c. c = CHR ''/'') (rev path);
               element = rev (takeWhile (\<lambda>c. c \<noteq> CHR ''/'') stripped)
           in if element = [] then ''/'' else element)"

text \<open>
  The surroundings of a run: the \<open>-v\<close> flag, what \<open>aspell.NewSpeller\<close> returns, the files,
  the tree \<open>Walk\<close> finds under a root, the two XML parsers as functions of the bytes read,
  and the MD5 digest in hexadecimal as a function of the bytes.
\<close>

record env =
  verboseFlag :: bool
  NewSpeller :: "error + speller"
  files :: "string \<Rightarrow> osFile"
  tree :: "string \<Rightarrow> entry"
  xmlqueryParse :: "string \<Rightarrow> error + node"
  xmlDecode :: "string \<Rightarrow> error + Svg"
  md5hex :: "string \<Rightarrow> string"


section \<open>Duplicate Detector\<close>

definition makeHash :: "env \<Rightarrow> string \<Rightarrow> string \<times> line list" where
  "makeHash env path =
     (case openError (files env path) of
        Some err \<Rightarrow> ([], [Line (Func ''makeHash'') ERROR (UnableToOpen path err)])
      | None \<Rightarrow>
          (case readError (files env path) of
             Some err \<Rightarrow> ([], [Line (Func ''makeHash'') ERROR (UnableToHash path err)])
           | None \<Rightarrow> (md5hex env (content (files env path)), [])))"

text \<open>A size is an \<open>int64\<close>; sizes are only compared.\<close>

definition getFileSize :: "env \<Rightarrow> string \<Rightarrow> int \<times> line list" where
  "getFileSize env path =
     (case statError (files env path) of
        Some err \<Rightarrow> (0, [GetFileSizePrint path err])
      | None \<Rightarrow> (int (length (content (files env path))), []))"

text \<open>The function \<open>checkDuplicates\<close> hands to \<open>Walk\<close>, with the variables it closes over.\<close>

definition checkDuplicatesFn :: "env \<Rightarrow> string \<Rightarrow> string \<Rightarrow> string \<Rightarrow> int \<Rightarrow> walkFunc" where
  "checkDuplicatesFn env checkPath aHash aBasename aSize path err =
     (case err of
        Some e \<Rightarrow> ([Line (Func ''checkDuplicates'') ERROR (UnableToAccess path e)], Failed e)
      | None \<Rightarrow>
          if Ext path \<noteq> ''.svg'' then ([], Ok)
          else
            (case getFileSize env path of (bSize, printedSize) \<Rightarrow>
             case makeHash env path of (bHash, printedHash) \<Rightarrow>
               ((if aBasename = Base path
                 then [Line (File checkPath) WARNING (DuplicateName path)] else []) @
                printedSize @
                (if aSize = bSize
                 then [Line (File checkPath) WARNING (DuplicateSize path)] else []) @
                printedHash @
                (if aHash = bHash
                 then [Line (File checkPath) WARNING (DuplicateHash path)] else []),
                Ok)))"

text \<open>
  \<open>checkDuplicates\<close> hashes and sizes the candidate, then walks the reference directory.
  The parsed document it is also given is not used.
\<close>

definition checkDuplicates :: "env \<Rightarrow> string \<Rightarrow> string \<Rightarrow> line list" where
  "checkDuplicates env checkPath dupDir =
     (case makeHash env checkPath of (aHash, printedHash) \<Rightarrow>
      case getFileSize env checkPath of (aSize, printedSize) \<Rightarrow>
      case walk (checkDuplicatesFn env checkPath aHash (Base checkPath) aSize) (tree env dupDir) of
        (printed, r) \<Rightarrow>
          printedHash @ printedSize @ printed @
          (case r of
             Failed err \<Rightarrow> [Line (Func ''checkDuplicates'') ERROR (UnableToWalk dupDir err)]
           | _ \<Rightarrow> []))"


section \<open>Tile Walker\<close>

subsection \<open>The variant that queries the document tree\<close>

text \<open>\<open>parseSvg\<close> reads the opened file; a failed read is the parser's error.\<close>

definition parseSvg :: "env \<Rightarrow> osFile \<Rightarrow> line list \<times> (error + node)" where
  "parseSvg env reader =
     (case (case readError reader of
              Some err \<Rightarrow> Inl err
            | None \<Rightarrow> xmlqueryParse env (content reader)) of
        Inl err \<Rightarrow> ([Line (Func ''parseSvg'') ERROR (CouldNotParse err)], Inl err)
      | Inr xmlDoc \<Rightarrow> ([], Inr xmlDoc))"

text \<open>
  The checks of one parsed file, in the order of the source. A panic in \<open>printSvg\<close>,
  \<open>checkSize\<close> or \<open>checkUnits\<close> ends the program after what was printed before it.
\<close>

definition runChecks :: "env \<Rightarrow> string \<Rightarrow> string \<Rightarrow> node \<Rightarrow> line list \<times> result" where
  "runChecks env dupDir path rootNode =
     (case (if verboseFlag env then printSvg rootNode else Some []) of
        None \<Rightarrow> ([], Panicked)
      | Some traced \<Rightarrow>
          (case checkSize path rootNode of
             None \<Rightarrow> (traced @ checkKeywords path rootNode, Panicked)
           | Some sizes \<Rightarrow>
               (case checkUnits path rootNode of
                  None \<Rightarrow> (traced @ checkKeywords path rootNode @ sizes, Panicked)
                | Some units \<Rightarrow>
                    (traced @ checkKeywords path rootNode @ sizes @ units @
                     checkIdentifier path rootNode @
                     checkKeywordSpelling (NewSpeller env) path rootNode @
                     checkTspanSpelling (NewSpeller env) path rootNode @
                     checkDuplicates env path dupDir, Ok))))"

text \<open>The function \<open>checkTiles\<close> hands to \<open>Walk\<close>.\<close>

definition checkTilesFn :: "env \<Rightarrow> string \<Rightarrow> walkFunc" where
  "checkTilesFn env dupDir path err =
     (case err of
        Some e \<Rightarrow> ([Line (Func ''checkTiles'') ERROR (UnableToAccess path e)], Failed e)
      | None \<Rightarrow>
          if Ext path \<noteq> ''.svg'' then ([], Ok)
          else
            (let visited = (if verboseFlag env then [VisitTrace path] else [])
             in case openError (files env path) of
                  Some e \<Rightarrow>
                    (visited @ [Line (Func ''checkTiles'') ERROR (UnableToOpen path e)], Failed e)
                | None \<Rightarrow>
                    (case parseSvg env (files env path) of
                       (printed, Inl e) \<Rightarrow> (visited @ printed, Failed e)
                     | (printed, Inr rootNode) \<Rightarrow>
                         (case runChecks env dupDir path rootNode of
                            (checked, r) \<Rightarrow> (visited @ printed @ checked, r)))))"

definition checkTiles :: "env \<Rightarrow> string \<Rightarrow> string \<Rightarrow> line list \<times> result" where
  "checkTiles env checkDir dupDir =
     (case walk (checkTilesFn env dupDir) (tree env checkDir) of
        (printed, Failed err) \<Rightarrow>
          (printed @ [Line (Func ''checkTiles'') ERROR (UnableToWalk checkDir err)], Failed err)
      | (printed, r) \<Rightarrow> (printed, r))"

subsection \<open>The variant that decodes into a fixed schema\<close>

definition parseSvgSvg :: "env \<Rightarrow> osFile \<Rightarrow> line list \<times> (error + Svg)" where
  "parseSvgSvg env reader =
     (case (case readError reader of
              Some err \<Rightarrow> Inl err
            | None \<Rightarrow> xmlDecode env (content reader)) of
        Inl err \<Rightarrow> ([Line (Func ''parseSvg'') ERROR (CouldNotParse err)], Inl err)
      | Inr svg \<Rightarrow> ([], Inr svg))"

definition checkTilesFnSvg :: "env \<Rightarrow> string \<Rightarrow> walkFunc" where
  "checkTilesFnSvg env dupDir path err =
     (case err of
        Some e \<Rightarrow> ([Line (Func ''checkTiles'') ERROR (UnableToAccess path e)], Failed e)
      | None \<Rightarrow>
          if Ext path \<noteq> ''.svg'' then ([], Ok)
          else
            (let visited = (if verboseFlag env then [VisitTrace path] else [])
             in case openError (files env path) of
                  Some e \<Rightarrow>
                    (visited @ [Line (Func ''checkTiles'') ERROR (UnableToOpen path e)], Failed e)
                | None \<Rightarrow>
                    (case parseSvgSvg env (files env path) of
                       (printed, Inl e) \<Rightarrow> (visited @ printed, Failed e)
                     | (printed, Inr svg) \<Rightarrow>
                         (visited @ printed @
                          (if verboseFlag env then printSvgSvg svg else []) @
                          checkKeywordsSvg path svg @ checkSizeSvg path svg @
                          checkUnitsSvg path svg @ checkIdentifierSvg path svg @
                          checkKeywordSpellingSvg (NewSpeller env) path svg @
                          checkTspanSpellingSvg path svg, Ok))))"

definition checkTilesSvg :: "env \<Rightarrow> string \<Rightarrow> string \<Rightarrow> line list \<times> result" where
  "checkTilesSvg env checkDir dupDir =
     (case walk (checkTilesFnSvg env dupDir) (tree env checkDir) of
        (printed, Failed err) \<Rightarrow>
          (printed @ [Line (Func ''checkTiles'') ERROR (UnableToWalk checkDir err)], Failed err)
      | (printed, r) \<Rightarrow> (printed, r))"


section \<open>The specification's wording, and example documents\<close>

text \<open>
  The text-run spelling check as the specification words it: every non-empty text run is
  split at single spaces, each token is checked without its slashes, and the rejected
  tokens, if any, are listed in one ERROR, joined by commas.
\<close>

definition textRunSpelling :: "speller \<Rightarrow> string \<Rightarrow> string list \<Rightarrow> line list" where
  "textRunSpelling check path textRuns =
     (let tokens = concat (map (\<lambda>run. Split run (CHR '' '')) (filter (\<lambda>run. run \<noteq> []) textRuns));
          rejected = filter (\<lambda>token. \<not> check (Replace token (CHR ''/''))) tokens
      in if rejected = [] then []
         else [Line (File path) ERROR (TextMisspelled (Join rejected '', ''))])"

definition tile80mm :: node where
  "tile80mm = Element ''svg'' [(''width'', ''80mm''), (''height'', ''90'')] []"

definition tile60 :: node where
  "tile60 = Element ''svg'' [(''width'', ''60''), (''height'', ''100'')] []"

definition tile30mm :: node where
  "tile30mm = Element ''svg'' [(''width'', ''30mm''), (''height'', ''100'')] []"

definition tile100x10 :: node where
  "tile100x10 = Element ''svg'' [(''width'', ''100''), (''height'', ''10'')] []"

definition emptySvg :: Svg where
  "emptySvg = \<lparr>Width = [], Height = [], ViewBox = [],
     Metadata = \<lparr>MetadataId = [], Rdf = \<lparr>Work = \<lparr>About = [],
       Subject = \<lparr>Bag = \<lparr>Items = []\<rparr>\<rparr>, Identifier = []\<rparr>\<rparr>\<rparr>,
     Texts = [], GroupedTexts = []\<rparr>"

definition emptyIdentifierTile :: node where
  "emptyIdentifierTile =
     Element ''svg'' [(''width'', ''100''), (''height'', ''100'')]
       [Element ''metadata'' []
          [Element ''rdf:RDF'' []
             [Element ''cc:Work'' [] [Element ''dc:identifier'' [] []]]]]"

definition slashTile :: node where
  "slashTile =
     Element ''svg'' []
       [Element ''svg:text'' []
          [Element ''svg:tspan'' [] [CharData ''Dra/gon lair''],
           Element ''svg:tspan'' [] [],
           Element ''svg:tspan'' [] [CharData ''xyzzqq''],
           Element ''svg:tspan'' [] [CharData ''of qwv'']]]"

definition toySpeller :: speller where
  "toySpeller word = (word \<in> set [''Dragon'', ''lair'', ''of'', ''''])"

text \<open>
  An example of the surroundings: two check directories, a reference directory with an
  entry that cannot be read, one with copies, and one with files that cannot be opened.
  The digest is a stand-in that tells the example files apart as MD5 does.
\<close>

definition plainFile :: "string \<Rightarrow> osFile" where
  "plainFile bytes = \<lparr>content = bytes, statError = None, openError = None, readError = None\<rparr>"

definition missingFile :: osFile where
  "missingFile = \<lparr>content = [], statError = Some (PathError ''no such file''),
     openError = Some (PathError ''no such file''), readError = None\<rparr>"

definition exampleEnv :: env where
  "exampleEnv = \<lparr>
     verboseFlag = False,
     NewSpeller = Inr toySpeller,
     files = (\<lambda>path.
       if path = ''tiles/a.svg''
         then (plainFile ''tile80mm'')\<lparr>openError := Some (PathError ''permission denied'')\<rparr>
       else if path = ''tiles/b.svg'' then plainFile ''tile60''
       else if path = ''broken/c.svg'' then plainFile ''not xml''
       else if path = ''broken/b.svg'' then plainFile ''tile60''
       else if path = ''ref/b.svg'' then plainFile ''tile60''
       else if path = ''copies/other.svg'' then plainFile ''tile60''
       else if path = ''copies/b.SVG'' then plainFile ''tile60''
       else if path = ''copies/b.svg'' then plainFile ''tile60''
       else if path = ''locked/x.svg''
         then (plainFile ''tile80mm'')\<lparr>openError := Some (PathError ''permission denied'')\<rparr>
       else missingFile),
     tree = (\<lambda>root.
       if root = ''tiles''
         then DirEntry ''tiles'' [FileEntry ''tiles/a.svg'', FileEntry ''tiles/b.svg'']
       else if root = ''broken''
         then DirEntry ''broken'' [FileEntry ''broken/b.svg'', FileEntry ''broken/c.svg'',
           FileEntry ''broken/d.svg'']
       else if root = ''ref''
         then DirEntry ''ref'' [BrokenEntry ''ref/a.svg'' (PathError ''permission denied''),
           FileEntry ''ref/b.svg'']
       else if root = ''copies''
         then DirEntry ''copies'' [FileEntry ''copies/b.SVG'', FileEntry ''copies/b.svg'',
           FileEntry ''copies/other.svg'']
       else if root = ''locked''
         then DirEntry ''locked'' [FileEntry ''locked/gone.svg'', FileEntry ''locked/x.svg'']
       else if root = ''empty'' then DirEntry ''empty'' []
       else BrokenEntry root (PathError ''no such file'')),
     xmlqueryParse = (\<lambda>bytes.
       if bytes = ''tile60'' then Inr tile60
       else if bytes = ''tile80mm'' then Inr tile80mm
       else Inl (XMLError ''syntax error'')),
     xmlDecode = (\<lambda>bytes.
       if bytes = ''tile60'' then Inr (emptySvg\<lparr>Width := ''60'', Height := ''100''\<rparr>)
       else Inl (XMLError ''syntax error'')),
     md5hex = (\<lambda>bytes. ''md5 of '' @ bytes)\<rparr>"


section \<open>Verified properties\<close>

subsection \<open>Unit Converter\<close>

lemma HasSuffix_two_unique:
  "HasSuffix s [a, b] \<Longrightarrow> HasSuffix s [c, d] \<Longrightarrow> a = c \<and> b = d"
  by (auto simp: HasSuffix_def)

lemma HasSuffix_last:
  "HasSuffix s suffix \<Longrightarrow> suffix \<noteq> [] \<Longrightarrow> last s = last suffix"
  unfolding HasSuffix_def
  by (metis last_drop length_0_conv diff_less length_greater_0_conv drop_eq_Nil not_le)

lemma HasSuffix_two_one:
  "HasSuffix s [a, b] \<Longrightarrow> HasSuffix s [c] \<Longrightarrow> b = c"
  using HasSuffix_last[of s "[a, b]"] HasSuffix_last[of s "[c]"] by simp

lemma floor_rat_numeral: "\<lfloor>numeral a / numeral b :: rat\<rfloor> = numeral a div numeral b"
  by (metis floor_divide_of_int_eq of_int_numeral)

lemmas float64_eval =
  floor_rat_numeral roundFloat64_def findExponent.simps pow2_def roundEven_def Let_def
  pxPerIn_def pxPerMm_def pxPerPt_def pxPerPc_def pxPerFt_def pxPerCm_def pxPerM_def

lemma pxPerMm_not_pxPerM: "roundFloat64 pxPerMm \<noteq> roundFloat64 pxPerM"
  by (simp add: float64_eval)

lemma pxPerCm_not_pxPerM: "roundFloat64 pxPerCm \<noteq> roundFloat64 pxPerM"
  by (simp add: float64_eval)

lemma getUnitConversion_cases:
  "(HasSuffix s ''in'' \<longrightarrow> getUnitConversion s = roundFloat64 pxPerIn) \<and>
   (HasSuffix s ''mm'' \<longrightarrow> getUnitConversion s = roundFloat64 pxPerMm) \<and>
   (HasSuffix s ''pt'' \<longrightarrow> getUnitConversion s = roundFloat64 pxPerPt) \<and>
   (HasSuffix s ''pc'' \<longrightarrow> getUnitConversion s = roundFloat64 pxPerPc) \<and>
   (HasSuffix s ''ft'' \<longrightarrow> getUnitConversion s = roundFloat64 pxPerFt) \<and>
   (HasSuffix s ''cm'' \<longrightarrow> getUnitConversion s = roundFloat64 pxPerCm) \<and>
   (HasSuffix s ''m'' \<and> \<not> HasSuffix s ''mm'' \<and> \<not> HasSuffix s ''cm'' \<longrightarrow>
      getUnitConversion s = roundFloat64 pxPerM) \<and>
   (\<not> HasSuffix s ''in'' \<and> \<not> HasSuffix s ''mm'' \<and> \<not> HasSuffix s ''pt'' \<and>
    \<not> HasSuffix s ''pc'' \<and> \<not> HasSuffix s ''ft'' \<and> \<not> HasSuffix s ''cm'' \<and>
    \<not> HasSuffix s ''m'' \<longrightarrow> getUnitConversion s = Finite 1)"
proof -
  have two: "\<And>a b c d. HasSuffix s [a, b] \<Longrightarrow> HasSuffix s [c, d] \<Longrightarrow> a = c \<and> b = d"
    by (rule HasSuffix_two_unique)
  have one: "\<And>a b c. HasSuffix s [a, b] \<Longrightarrow> HasSuffix s [c] \<Longrightarrow> b = c"
    by (rule HasSuffix_two_one)
  show ?thesis
    unfolding getUnitConversion_def
    by (auto dest: two one)
qed

text \<open>
  C4. \<open>getUnitConversion\<close> returns the constant of the first suffix that matches, in the
  order \<open>in, mm, pt, pc, ft, cm, m\<close>. The two-letter suffixes exclude each other, so the
  order decides only between \<open>m\<close> and \<open>mm\<close>/\<open>cm\<close>: a string ending in \<open>mm\<close> or \<open>cm\<close> gets
  that constant, which differs from the constant of \<open>m\<close>. A string with none of the
  seven suffixes (the test is byte-wise, so \<open>MM\<close> is none) gets exactly \<open>1.0\<close>.
\<close>

theorem getUnitConversion_table:
  "(HasSuffix s ''in'' \<longrightarrow> getUnitConversion s = roundFloat64 pxPerIn) \<and>
   (HasSuffix s ''mm'' \<longrightarrow> getUnitConversion s = roundFloat64 pxPerMm) \<and>
   (HasSuffix s ''pt'' \<longrightarrow> getUnitConversion s = roundFloat64 pxPerPt) \<and>
   (HasSuffix s ''pc'' \<longrightarrow> getUnitConversion s = roundFloat64 pxPerPc) \<and>
   (HasSuffix s ''ft'' \<longrightarrow> getUnitConversion s = roundFloat64 pxPerFt) \<and>
   (HasSuffix s ''cm'' \<longrightarrow> getUnitConversion s = roundFloat64 pxPerCm) \<and>
   (HasSuffix s ''m'' \<and> \<not> HasSuffix s ''mm'' \<and> \<not> HasSuffix s ''cm'' \<longrightarrow>
      getUnitConversion s = roundFloat64 pxPerM) \<and>
   (\<not> HasSuffix s ''in'' \<and> \<not> HasSuffix s ''mm'' \<and> \<not> HasSuffix s ''pt'' \<and>
    \<not> HasSuffix s ''pc'' \<and> \<not> HasSuffix s ''ft'' \<and> \<not> HasSuffix s ''cm'' \<and>
    \<not> HasSuffix s ''m'' \<longrightarrow> getUnitConversion s = Finite 1) \<and>
   roundFloat64 pxPerMm \<noteq> roundFloat64 pxPerM \<and>
   roundFloat64 pxPerCm \<noteq> roundFloat64 pxPerM"
  using getUnitConversion_cases [of s] pxPerMm_not_pxPerM pxPerCm_not_pxPerM
  by (intro conjI) (erule conjE | assumption)+

theorem getUnitConversion_table_witness:
  "HasSuffix ''2in'' ''in'' \<and> getUnitConversion ''2in'' = roundFloat64 pxPerIn \<and>
   HasSuffix ''80mm'' ''mm'' \<and> getUnitConversion ''80mm'' = roundFloat64 pxPerMm \<and>
   HasSuffix ''12pt'' ''pt'' \<and> getUnitConversion ''12pt'' = roundFloat64 pxPerPt \<and>
   HasSuffix ''6pc'' ''pc'' \<and> getUnitConversion ''6pc'' = roundFloat64 pxPerPc \<and>
   HasSuffix ''1ft'' ''ft'' \<and> getUnitConversion ''1ft'' = roundFloat64 pxPerFt \<and>
   HasSuffix ''8cm'' ''cm'' \<and> getUnitConversion ''8cm'' = roundFloat64 pxPerCm \<and>
   HasSuffix ''1m'' ''m'' \<and> getUnitConversion ''1m'' = roundFloat64 pxPerM \<and>
   getUnitConversion ''80MM'' = Finite 1 \<and> getUnitConversion ''80'' = Finite 1 \<and>
   getUnitConversion ''80px'' = Finite 1"
  using getUnitConversion_table [of "''2in''"] getUnitConversion_table [of "''80mm''"]
    getUnitConversion_table [of "''12pt''"] getUnitConversion_table [of "''6pc''"]
    getUnitConversion_table [of "''1ft''"] getUnitConversion_table [of "''8cm''"]
    getUnitConversion_table [of "''1m''"] getUnitConversion_table [of "''80MM''"]
    getUnitConversion_table [of "''80''"] getUnitConversion_table [of "''80px''"]
  by (simp add: HasSuffix_def)

lemma readFloat_None_iff:
  "list_all (\<lambda>c. isDigit c \<or> c = CHR ''.'') r \<Longrightarrow>
   readFloat r sawdot sawdigits m dp = None \<longleftrightarrow>
     (1 < count_list r (CHR ''.'') + (if sawdot then 1 else 0)) \<or>
     (\<not> sawdigits \<and> \<not> list_ex isDigit r)"
proof (induction r arbitrary: sawdot sawdigits m dp)
  case Nil
  then show ?case by simp
next
  case (Cons c cs)
  have nd: "\<not> isDigit (CHR ''.'')" by (simp add: isDigit_def)
  from Cons show ?case by (auto simp: nd)
qed

lemma ReplaceAllString_filter:
  "ReplaceAllString s = filter (\<lambda>c. isDigit c \<or> c = CHR ''.'') s"
  by (induction s) (auto simp: matchesNonNumeric_def)

lemma ReplaceAllString_all:
  "list_all (\<lambda>c. isDigit c \<or> c = CHR ''.'') (ReplaceAllString s)"
  by (simp add: ReplaceAllString_filter list_all_iff)

lemma ParseFloat_not_numeric:
  assumes "list_all (\<lambda>c. isDigit c \<or> c = CHR ''.'') r" "\<not> numeric r"
  shows "ParseFloat r = (Finite 0, Some ErrSyntax)"
proof -
  have "readFloat r False False 0 0 = None"
    using assms readFloat_None_iff[of r False False 0 0] by (auto simp: numeric_def)
  then show ?thesis by (simp add: ParseFloat_def)
qed

lemma ParseFloat_numeric:
  assumes "numeric r"
  shows "snd (ParseFloat r) \<noteq> Some ErrSyntax"
proof -
  have "readFloat r False False 0 0 \<noteq> None"
    using assms readFloat_None_iff[of r False False 0 0] by (auto simp: numeric_def)
  then show ?thesis by (auto simp: ParseFloat_def split: float64.splits)
qed

lemma not_numeric_Nil: "\<not> numeric []"
  by (simp add: numeric_def)

lemma ParseFloat_value:
  "readFloat s False False 0 0 = Some (m, dp) \<Longrightarrow> roundFloat64 (of_nat m / 10 ^ dp) = Finite r \<Longrightarrow>
   ParseFloat s = (Finite r, None)"
  by (simp add: ParseFloat_def)

lemma toFloat_value:
  "ReplaceAllString s = t \<Longrightarrow> ParseFloat t = (f, None) \<Longrightarrow> toFloat s = (f, [])"
  by (simp add: toFloat_def)

lemma toFloat_example: "toFloat ''80.5mm'' = (Finite (161 / 2), [])"
proof -
  have strip: "ReplaceAllString ''80.5mm'' = ''80.5''"
    by (simp add: matchesNonNumeric_def isDigit_def)
  have digits: "readFloat ''80.5'' False False 0 0 = Some (805, 1)"
    by (simp add: isDigit_def)
  have "roundFloat64 (of_nat 805 / 10 ^ 1) = Finite (161 / 2)"
    by (simp add: float64_eval)
  from toFloat_value [OF strip ParseFloat_value [OF digits this]] show ?thesis .
qed

text \<open>
  C5. \<open>toFloat\<close> removes every character that is not a digit or a dot and parses what is
  left: \<open>toFloat "80.5mm"\<close> is \<open>80.5\<close>, with nothing printed. When what is left is empty
  or not numeric, \<open>toFloat\<close> prints one conversion error and still returns a value, zero,
  to its caller.
\<close>

theorem toFloat_strips_then_parses:
  "ReplaceAllString s = filter (\<lambda>c. isDigit c \<or> c = CHR ''.'') s \<and>
   fst (toFloat s) = fst (ParseFloat (ReplaceAllString s)) \<and>
   toFloat ''80.5mm'' = (Finite (161 / 2), []) \<and>
   (ReplaceAllString s = [] \<or> \<not> numeric (ReplaceAllString s) \<longrightarrow>
      toFloat s = (Finite 0, [Line (Func ''toFloat'') ERROR (UnableToConvert s ErrSyntax)]))"
proof -
  have parse: "fst (toFloat s) = fst (ParseFloat (ReplaceAllString s))"
    by (cases "ParseFloat (ReplaceAllString s)") (auto simp: toFloat_def split: option.splits)
  have bad: "toFloat s = (Finite 0, [Line (Func ''toFloat'') ERROR (UnableToConvert s ErrSyntax)])"
    if "ReplaceAllString s = [] \<or> \<not> numeric (ReplaceAllString s)"
  proof -
    from that have "\<not> numeric (ReplaceAllString s)"
      using not_numeric_Nil by auto
    then have "ParseFloat (ReplaceAllString s) = (Finite 0, Some ErrSyntax)"
      using ParseFloat_not_numeric ReplaceAllString_all by blast
    then show ?thesis by (simp add: toFloat_def)
  qed
  show ?thesis
    using parse bad ReplaceAllString_filter toFloat_example by blast
qed

theorem toFloat_strips_then_parses_witness:
  "ReplaceAllString ''px'' = [] \<and>
   toFloat ''px'' = (Finite 0, [Line (Func ''toFloat'') ERROR (UnableToConvert ''px'' ErrSyntax)]) \<and>
   \<not> numeric (ReplaceAllString ''1.2.3mm'') \<and>
   toFloat ''1.2.3mm'' =
     (Finite 0, [Line (Func ''toFloat'') ERROR (UnableToConvert ''1.2.3mm'' ErrSyntax)])"
proof -
  have a: "ReplaceAllString ''px'' = []"
    by (simp add: matchesNonNumeric_def isDigit_def)
  have b: "\<not> numeric (ReplaceAllString ''1.2.3mm'')"
    by (simp add: matchesNonNumeric_def isDigit_def numeric_def)
  show ?thesis
    using a b toFloat_strips_then_parses [of "''px''"] toFloat_strips_then_parses [of "''1.2.3mm''"]
    by blast
qed

subsection \<open>Minimum size and units\<close>

lemma roundFloat64_minWidth: "roundFloat64 minWidth = Finite 80"
  by (simp add: minWidth_def float64_eval)

lemma roundFloat64_minHeight: "roundFloat64 minHeight = Finite 80"
  by (simp add: minHeight_def float64_eval)

lemma toFloat_80mm: "toFloat ''80mm'' = (Finite 80, [])"
proof -
  have strip: "ReplaceAllString ''80mm'' = ''80''"
    by (simp add: matchesNonNumeric_def isDigit_def)
  have digits: "readFloat ''80'' False False 0 0 = Some (80, 0)"
    by (simp add: isDigit_def)
  have "roundFloat64 (of_nat 80 / 10 ^ 0) = Finite 80"
    by (simp add: float64_eval)
  from toFloat_value [OF strip ParseFloat_value [OF digits this]] show ?thesis .
qed

lemma toFloat_60: "toFloat ''60'' = (Finite 60, [])"
proof -
  have strip: "ReplaceAllString ''60'' = ''60''"
    by (simp add: matchesNonNumeric_def isDigit_def)
  have digits: "readFloat ''60'' False False 0 0 = Some (60, 0)"
    by (simp add: isDigit_def)
  have "roundFloat64 (of_nat 60 / 10 ^ 0) = Finite 60"
    by (simp add: float64_eval)
  from toFloat_value [OF strip ParseFloat_value [OF digits this]] show ?thesis .
qed

lemma toFloat_100: "toFloat ''100'' = (Finite 100, [])"
proof -
  have strip: "ReplaceAllString ''100'' = ''100''"
    by (simp add: matchesNonNumeric_def isDigit_def)
  have digits: "readFloat ''100'' False False 0 0 = Some (100, 0)"
    by (simp add: isDigit_def)
  have "roundFloat64 (of_nat 100 / 10 ^ 0) = Finite 100"
    by (simp add: float64_eval)
  from toFloat_value [OF strip ParseFloat_value [OF digits this]] show ?thesis .
qed

lemma getUnitConversion_80mm: "getUnitConversion ''80mm'' \<noteq> Finite 1"
proof -
  have "getUnitConversion ''80mm'' = roundFloat64 pxPerMm"
    by (simp add: getUnitConversion_def HasSuffix_def)
  moreover have "roundFloat64 pxPerMm \<noteq> Finite 1"
    by (simp add: float64_eval)
  ultimately show ?thesis by simp
qed

lemma toFloat_printed:
  "snd (toFloat s) = [] \<or> (\<exists>e. snd (toFloat s) = [Line (Func ''toFloat'') ERROR (UnableToConvert s e)])"
  by (cases "ParseFloat (ReplaceAllString s)") (auto simp: toFloat_def split: option.splits)

lemma toFloat_printed_no_size:
  "Line (File path) ERROR (WidthTooSmall f) \<notin> set (snd (toFloat s))"
  "Line (File path) ERROR (HeightTooSmall f) \<notin> set (snd (toFloat s))"
  using toFloat_printed [of s] by auto

lemma ReplaceAllString_append:
  "ReplaceAllString (s @ u) = ReplaceAllString s @ ReplaceAllString u"
  by (induction s) auto

lemma ReplaceAllString_unit: "list_all matchesNonNumeric u \<Longrightarrow> ReplaceAllString u = []"
  by (induction u) auto

lemma toFloat_ignores_unit:
  "list_all matchesNonNumeric u \<Longrightarrow> fst (toFloat (s @ u)) = fst (toFloat s)"
  by (cases "ParseFloat (ReplaceAllString s)")
     (auto simp: toFloat_def ReplaceAllString_append ReplaceAllString_unit split: option.splits)

lemma checkSize_80mm:
  assumes "FindOne ''svg'' node = Some n" "SelectAttr n ''width'' = ''80mm''"
  shows "\<exists>ls. checkSize path node = Some ls \<and> (\<forall>f. Line (File path) ERROR (WidthTooSmall f) \<notin> set ls)"
  using assms toFloat_printed_no_size(1) [of path _ "SelectAttr n ''height''"]
  by (cases "toFloat (SelectAttr n ''height'')")
     (auto simp: checkSize_def toFloat_80mm roundFloat64_minWidth)

lemma checkUnits_80mm:
  assumes "FindOne ''svg'' node = Some n" "SelectAttr n ''width'' = ''80mm''"
  shows "\<exists>lu. checkUnits path node = Some lu \<and> Line (File path) WARNING (WidthUnits ''80mm'') \<in> set lu"
  using assms getUnitConversion_80mm by (simp add: checkUnits_def Let_def)

lemma checkSize_60_100:
  assumes "FindOne ''svg'' node = Some n" "SelectAttr n ''width'' = ''60''"
    "SelectAttr n ''height'' = ''100''"
  shows "checkSize path node = Some [Line (File path) ERROR (WidthTooSmall (Finite 60))]"
  using assms
  by (simp add: checkSize_def toFloat_60 toFloat_100 roundFloat64_minWidth roundFloat64_minHeight)

lemma checkSizeSvg_80mm:
  assumes "Width svg = ''80mm''"
  shows "Line (File path) ERROR (WidthTooSmall f) \<notin> set (checkSizeSvg path svg)"
  using assms toFloat_printed_no_size(1) [of path f "Height svg"]
  by (cases "toFloat (Height svg)")
     (auto simp: checkSizeSvg_def toFloat_80mm roundFloat64_minWidth)

lemma checkUnitsSvg_80mm:
  assumes "Width svg = ''80mm''"
  shows "Line (File path) WARNING (WidthUnits ''80mm'') \<in> set (checkUnitsSvg path svg)"
  using assms getUnitConversion_80mm by (simp add: checkUnitsSvg_def)

lemma checkSizeSvg_60_100:
  assumes "Width svg = ''60''" "Height svg = ''100''"
  shows "checkSizeSvg path svg = [Line (File path) ERROR (WidthTooSmall (Finite 60))]"
  using assms
  by (simp add: checkSizeSvg_def toFloat_60 toFloat_100 roundFloat64_minWidth roundFloat64_minHeight)

lemma toFloat_30mm: "toFloat ''30mm'' = (Finite 30, [])"
proof -
  have strip: "ReplaceAllString ''30mm'' = ''30''"
    by (simp add: matchesNonNumeric_def isDigit_def)
  have digits: "readFloat ''30'' False False 0 0 = Some (30, 0)"
    by (simp add: isDigit_def)
  have "roundFloat64 (of_nat 30 / 10 ^ 0) = Finite 30"
    by (simp add: float64_eval)
  from toFloat_value [OF strip ParseFloat_value [OF digits this]] show ?thesis .
qed

lemma toFloat_10: "toFloat ''10'' = (Finite 10, [])"
proof -
  have strip: "ReplaceAllString ''10'' = ''10''"
    by (simp add: matchesNonNumeric_def isDigit_def)
  have digits: "readFloat ''10'' False False 0 0 = Some (10, 0)"
    by (simp add: isDigit_def)
  have "roundFloat64 (of_nat 10 / 10 ^ 0) = Finite 10"
    by (simp add: float64_eval)
  from toFloat_value [OF strip ParseFloat_value [OF digits this]] show ?thesis .
qed

lemma toFloat_90: "toFloat ''90'' = (Finite 90, [])"
proof -
  have strip: "ReplaceAllString ''90'' = ''90''"
    by (simp add: matchesNonNumeric_def isDigit_def)
  have digits: "readFloat ''90'' False False 0 0 = Some (90, 0)"
    by (simp add: isDigit_def)
  have "roundFloat64 (of_nat 90 / 10 ^ 0) = Finite 90"
    by (simp add: float64_eval)
  from toFloat_value [OF strip ParseFloat_value [OF digits this]] show ?thesis .
qed

lemma getUnitConversion_30mm: "getUnitConversion ''30mm'' = roundFloat64 pxPerMm"
  by (simp add: getUnitConversion_def HasSuffix_def)

lemma pxPerMm_value: "roundFloat64 pxPerMm = Finite (1063861569974899 / 281474976710656)"
  by (simp add: float64_eval)

lemma checkSize_output:
  assumes "FindOne ''svg'' node = Some n"
  shows "checkSize path node =
     Some (snd (toFloat (SelectAttr n ''width'')) @ snd (toFloat (SelectAttr n ''height'')) @
       (if float64_less (fst (toFloat (SelectAttr n ''width''))) (Finite 80)
        then [Line (File path) ERROR (WidthTooSmall (fst (toFloat (SelectAttr n ''width''))))]
        else []) @
       (if float64_less (fst (toFloat (SelectAttr n ''height''))) (Finite 80)
        then [Line (File path) ERROR (HeightTooSmall (fst (toFloat (SelectAttr n ''height''))))]
        else []))"
  using assms
  by (cases "toFloat (SelectAttr n ''width'')"; cases "toFloat (SelectAttr n ''height'')")
     (simp add: checkSize_def roundFloat64_minWidth roundFloat64_minHeight)

lemma checkSizeSvg_output:
  "checkSizeSvg path svg =
     snd (toFloat (Width svg)) @ snd (toFloat (Height svg)) @
     (if float64_less (fst (toFloat (Width svg))) (Finite 80)
      then [Line (File path) ERROR (WidthTooSmall (fst (toFloat (Width svg))))] else []) @
     (if float64_less (fst (toFloat (Height svg))) (Finite 80)
      then [Line (File path) ERROR (HeightTooSmall (fst (toFloat (Height svg))))] else [])"
  by (cases "toFloat (Width svg)"; cases "toFloat (Height svg)")
     (simp add: checkSizeSvg_def roundFloat64_minWidth roundFloat64_minHeight)

lemma checkUnits_output:
  assumes "FindOne ''svg'' node = Some n"
  shows "checkUnits path node =
     Some ((if getUnitConversion (SelectAttr n ''width'') \<noteq> Finite 1
            then [Line (File path) WARNING (WidthUnits (SelectAttr n ''width''))] else []) @
           (if getUnitConversion (SelectAttr n ''height'') \<noteq> Finite 1
            then [Line (File path) WARNING (HeightUnits (SelectAttr n ''height''))] else []))"
  using assms by (simp add: checkUnits_def Let_def)

text \<open>
  C3. In both variants the size check prints what the two calls of \<open>toFloat\<close> print and
  then one ERROR for the width and one for the height, each exactly when the value
  \<open>toFloat\<close> made of the raw attribute is below 80. No unit is converted: \<open>toFloat\<close> drops
  the unit with every other character that is not a digit or a dot, and
  \<open>getUnitConversion\<close> is used by the unit check only, which warns for each attribute
  whose multiplier is not 1. So a document of width \<open>80mm\<close> gets the unit WARNING for its
  width and no width-size ERROR, whatever its height, and a document of width \<open>60\<close> and
  height \<open>100\<close> gets the width-size ERROR and nothing else from the size check.
\<close>

theorem checkSize_raw_magnitude:
  "(FindOne ''svg'' node = Some n \<longrightarrow>
      checkSize path node =
        Some (snd (toFloat (SelectAttr n ''width'')) @ snd (toFloat (SelectAttr n ''height'')) @
          (if float64_less (fst (toFloat (SelectAttr n ''width''))) (Finite 80)
           then [Line (File path) ERROR (WidthTooSmall (fst (toFloat (SelectAttr n ''width''))))]
           else []) @
          (if float64_less (fst (toFloat (SelectAttr n ''height''))) (Finite 80)
           then [Line (File path) ERROR (HeightTooSmall (fst (toFloat (SelectAttr n ''height''))))]
           else [])) \<and>
      checkUnits path node =
        Some ((if getUnitConversion (SelectAttr n ''width'') \<noteq> Finite 1
               then [Line (File path) WARNING (WidthUnits (SelectAttr n ''width''))] else []) @
              (if getUnitConversion (SelectAttr n ''height'') \<noteq> Finite 1
               then [Line (File path) WARNING (HeightUnits (SelectAttr n ''height''))] else []))) \<and>
   checkSizeSvg path svg =
     snd (toFloat (Width svg)) @ snd (toFloat (Height svg)) @
     (if float64_less (fst (toFloat (Width svg))) (Finite 80)
      then [Line (File path) ERROR (WidthTooSmall (fst (toFloat (Width svg))))] else []) @
     (if float64_less (fst (toFloat (Height svg))) (Finite 80)
      then [Line (File path) ERROR (HeightTooSmall (fst (toFloat (Height svg))))] else []) \<and>
   checkUnitsSvg path svg =
     (if getUnitConversion (Width svg) \<noteq> Finite 1
      then [Line (File path) WARNING (WidthUnits (Width svg))] else []) @
     (if getUnitConversion (Height svg) \<noteq> Finite 1
      then [Line (File path) WARNING (HeightUnits (Height svg))] else []) \<and>
   (list_all matchesNonNumeric u \<longrightarrow> fst (toFloat (s @ u)) = fst (toFloat s)) \<and>
   toFloat ''80mm'' = (Finite 80, []) \<and> getUnitConversion ''80mm'' \<noteq> Finite 1 \<and>
   toFloat ''60'' = (Finite 60, []) \<and> toFloat ''100'' = (Finite 100, []) \<and>
   (FindOne ''svg'' node = Some n \<and> SelectAttr n ''width'' = ''80mm'' \<longrightarrow>
      (\<exists>ls lu. checkSize path node = Some ls \<and> checkUnits path node = Some lu \<and>
         Line (File path) WARNING (WidthUnits ''80mm'') \<in> set lu \<and>
         (\<forall>f. Line (File path) ERROR (WidthTooSmall f) \<notin> set ls))) \<and>
   (FindOne ''svg'' node = Some n \<and> SelectAttr n ''width'' = ''60'' \<and>
    SelectAttr n ''height'' = ''100'' \<longrightarrow>
      checkSize path node = Some [Line (File path) ERROR (WidthTooSmall (Finite 60))]) \<and>
   (Width svg = ''80mm'' \<longrightarrow>
      Line (File path) WARNING (WidthUnits ''80mm'') \<in> set (checkUnitsSvg path svg) \<and>
      (\<forall>f. Line (File path) ERROR (WidthTooSmall f) \<notin> set (checkSizeSvg path svg))) \<and>
   (Width svg = ''60'' \<and> Height svg = ''100'' \<longrightarrow>
      checkSizeSvg path svg = [Line (File path) ERROR (WidthTooSmall (Finite 60))])"
proof -
  have general: "FindOne ''svg'' node = Some n \<longrightarrow>
      checkSize path node =
        Some (snd (toFloat (SelectAttr n ''width'')) @ snd (toFloat (SelectAttr n ''height'')) @
          (if float64_less (fst (toFloat (SelectAttr n ''width''))) (Finite 80)
           then [Line (File path) ERROR (WidthTooSmall (fst (toFloat (SelectAttr n ''width''))))]
           else []) @
          (if float64_less (fst (toFloat (SelectAttr n ''height''))) (Finite 80)
           then [Line (File path) ERROR (HeightTooSmall (fst (toFloat (SelectAttr n ''height''))))]
           else [])) \<and>
      checkUnits path node =
        Some ((if getUnitConversion (SelectAttr n ''width'') \<noteq> Finite 1
               then [Line (File path) WARNING (WidthUnits (SelectAttr n ''width''))] else []) @
              (if getUnitConversion (SelectAttr n ''height'') \<noteq> Finite 1
               then [Line (File path) WARNING (HeightUnits (SelectAttr n ''height''))] else []))"
    using checkSize_output [of node n path] checkUnits_output [of node n path] by blast
  have units: "checkUnitsSvg path svg =
     (if getUnitConversion (Width svg) \<noteq> Finite 1
      then [Line (File path) WARNING (WidthUnits (Width svg))] else []) @
     (if getUnitConversion (Height svg) \<noteq> Finite 1
      then [Line (File path) WARNING (HeightUnits (Height svg))] else [])"
    by (simp add: checkUnitsSvg_def)
  have drop: "list_all matchesNonNumeric u \<longrightarrow> fst (toFloat (s @ u)) = fst (toFloat s)"
    using toFloat_ignores_unit by blast
  have a80: "FindOne ''svg'' node = Some n \<and> SelectAttr n ''width'' = ''80mm'' \<longrightarrow>
      (\<exists>ls lu. checkSize path node = Some ls \<and> checkUnits path node = Some lu \<and>
         Line (File path) WARNING (WidthUnits ''80mm'') \<in> set lu \<and>
         (\<forall>f. Line (File path) ERROR (WidthTooSmall f) \<notin> set ls))"
  proof
    assume a: "FindOne ''svg'' node = Some n \<and> SelectAttr n ''width'' = ''80mm''"
    from a checkSize_80mm [of node n path] obtain ls where
      ls: "checkSize path node = Some ls" "\<forall>f. Line (File path) ERROR (WidthTooSmall f) \<notin> set ls"
      by blast
    from a checkUnits_80mm [of node n path] obtain lu where
      lu: "checkUnits path node = Some lu" "Line (File path) WARNING (WidthUnits ''80mm'') \<in> set lu"
      by blast
    from ls lu show "\<exists>ls lu. checkSize path node = Some ls \<and> checkUnits path node = Some lu \<and>
         Line (File path) WARNING (WidthUnits ''80mm'') \<in> set lu \<and>
         (\<forall>f. Line (File path) ERROR (WidthTooSmall f) \<notin> set ls)"
      by blast
  qed
  have a60: "FindOne ''svg'' node = Some n \<and> SelectAttr n ''width'' = ''60'' \<and>
    SelectAttr n ''height'' = ''100'' \<longrightarrow>
      checkSize path node = Some [Line (File path) ERROR (WidthTooSmall (Finite 60))]"
    using checkSize_60_100 by blast
  have b80: "Width svg = ''80mm'' \<longrightarrow>
      Line (File path) WARNING (WidthUnits ''80mm'') \<in> set (checkUnitsSvg path svg) \<and>
      (\<forall>f. Line (File path) ERROR (WidthTooSmall f) \<notin> set (checkSizeSvg path svg))"
    using checkUnitsSvg_80mm checkSizeSvg_80mm by blast
  have b60: "Width svg = ''60'' \<and> Height svg = ''100'' \<longrightarrow>
      checkSizeSvg path svg = [Line (File path) ERROR (WidthTooSmall (Finite 60))]"
    using checkSizeSvg_60_100 by blast
  show ?thesis
    by (intro conjI general checkSizeSvg_output units drop toFloat_80mm getUnitConversion_80mm
        toFloat_60 toFloat_100 a80 a60 b80 b60)
qed

theorem checkSize_raw_magnitude_witness:
  "checkSize ''a.svg'' tile80mm = Some [] \<and>
   checkUnits ''a.svg'' tile80mm = Some [Line (File ''a.svg'') WARNING (WidthUnits ''80mm'')] \<and>
   checkSize ''a.svg'' tile60 = Some [Line (File ''a.svg'') ERROR (WidthTooSmall (Finite 60))] \<and>
   checkUnits ''a.svg'' tile60 = Some [] \<and>
   checkSize ''a.svg'' tile30mm = Some [Line (File ''a.svg'') ERROR (WidthTooSmall (Finite 30))] \<and>
   getUnitConversion ''30mm'' = Finite (1063861569974899 / 281474976710656) \<and>
   checkSize ''a.svg'' tile100x10 = Some [Line (File ''a.svg'') ERROR (HeightTooSmall (Finite 10))] \<and>
   checkSizeSvg ''a.svg'' (emptySvg\<lparr>Width := ''30mm'', Height := ''10''\<rparr>) =
     [Line (File ''a.svg'') ERROR (WidthTooSmall (Finite 30)),
      Line (File ''a.svg'') ERROR (HeightTooSmall (Finite 10))] \<and>
   checkUnitsSvg ''a.svg'' (emptySvg\<lparr>Width := ''80mm'', Height := ''90''\<rparr>) =
     [Line (File ''a.svg'') WARNING (WidthUnits ''80mm'')] \<and>
   checkSizeSvg ''a.svg'' (emptySvg\<lparr>Width := ''60'', Height := ''100''\<rparr>) =
     [Line (File ''a.svg'') ERROR (WidthTooSmall (Finite 60))] \<and>
   fst (toFloat (''80'' @ ''mm'')) = fst (toFloat ''80'')"
proof -
  have f1: "FindOne ''svg'' tile80mm = Some tile80mm" "SelectAttr tile80mm ''width'' = ''80mm''"
    "SelectAttr tile80mm ''height'' = ''90''"
    by (simp_all add: tile80mm_def FindOne_def)
  have f2: "FindOne ''svg'' tile60 = Some tile60" "SelectAttr tile60 ''width'' = ''60''"
    "SelectAttr tile60 ''height'' = ''100''"
    by (simp_all add: tile60_def FindOne_def)
  have f3: "FindOne ''svg'' tile30mm = Some tile30mm" "SelectAttr tile30mm ''width'' = ''30mm''"
    "SelectAttr tile30mm ''height'' = ''100''"
    by (simp_all add: tile30mm_def FindOne_def)
  have f4: "FindOne ''svg'' tile100x10 = Some tile100x10" "SelectAttr tile100x10 ''width'' = ''100''"
    "SelectAttr tile100x10 ''height'' = ''10''"
    by (simp_all add: tile100x10_def FindOne_def)
  have f5: "list_all matchesNonNumeric ''mm''"
    by (simp add: matchesNonNumeric_def isDigit_def)
  have u: "getUnitConversion ''90'' = Finite 1" "getUnitConversion ''60'' = Finite 1"
    "getUnitConversion ''100'' = Finite 1"
    by (simp_all add: getUnitConversion_def HasSuffix_def)
  note vals = toFloat_80mm toFloat_60 toFloat_100 toFloat_30mm toFloat_10 toFloat_90
    getUnitConversion_80mm
  have e1: "checkSize ''a.svg'' tile80mm = Some []"
    "checkUnits ''a.svg'' tile80mm = Some [Line (File ''a.svg'') WARNING (WidthUnits ''80mm'')]"
    using checkSize_raw_magnitude [of tile80mm tile80mm "''a.svg''" emptySvg "''mm''" "''80''"]
    by (simp_all add: f1 vals u)
  have e2: "checkSize ''a.svg'' tile60 = Some [Line (File ''a.svg'') ERROR (WidthTooSmall (Finite 60))]"
    "checkUnits ''a.svg'' tile60 = Some []"
    using checkSize_raw_magnitude [of tile60 tile60 "''a.svg''" emptySvg "''mm''" "''80''"]
    by (simp_all add: f2 vals u)
  have e3: "checkSize ''a.svg'' tile30mm = Some [Line (File ''a.svg'') ERROR (WidthTooSmall (Finite 30))]"
    using checkSize_raw_magnitude [of tile30mm tile30mm "''a.svg''" emptySvg "''mm''" "''80''"]
    by (simp add: f3 vals)
  have e4: "checkSize ''a.svg'' tile100x10 = Some [Line (File ''a.svg'') ERROR (HeightTooSmall (Finite 10))]"
    using checkSize_raw_magnitude [of tile100x10 tile100x10 "''a.svg''" emptySvg "''mm''" "''80''"]
    by (simp add: f4 vals)
  have e5: "checkSizeSvg ''a.svg'' (emptySvg\<lparr>Width := ''30mm'', Height := ''10''\<rparr>) =
     [Line (File ''a.svg'') ERROR (WidthTooSmall (Finite 30)),
      Line (File ''a.svg'') ERROR (HeightTooSmall (Finite 10))]"
    using checkSize_raw_magnitude [of tile60 tile60 "''a.svg''"
        "emptySvg\<lparr>Width := ''30mm'', Height := ''10''\<rparr>" "''mm''" "''80''"]
    by (simp add: vals)
  have e6: "checkUnitsSvg ''a.svg'' (emptySvg\<lparr>Width := ''80mm'', Height := ''90''\<rparr>) =
     [Line (File ''a.svg'') WARNING (WidthUnits ''80mm'')]"
    using checkSize_raw_magnitude [of tile60 tile60 "''a.svg''"
        "emptySvg\<lparr>Width := ''80mm'', Height := ''90''\<rparr>" "''mm''" "''80''"]
    by (simp add: vals u)
  have e7: "checkSizeSvg ''a.svg'' (emptySvg\<lparr>Width := ''60'', Height := ''100''\<rparr>) =
     [Line (File ''a.svg'') ERROR (WidthTooSmall (Finite 60))]"
    using checkSize_raw_magnitude [of tile60 tile60 "''a.svg''"
        "emptySvg\<lparr>Width := ''60'', Height := ''100''\<rparr>" "''mm''" "''80''"]
    by simp
  have e8: "fst (toFloat (''80'' @ ''mm'')) = fst (toFloat ''80'')"
    using checkSize_raw_magnitude [of tile60 tile60 "''a.svg''" emptySvg "''mm''" "''80''"] f5
    by blast
  have e9: "getUnitConversion ''30mm'' = Finite (1063861569974899 / 281474976710656)"
    using getUnitConversion_30mm pxPerMm_value by simp
  show ?thesis
    using e1 e2 e3 e4 e5 e6 e7 e8 e9 by blast
qed

subsection \<open>Keywords\<close>

lemma checkKeywordSpelling_no_keywords:
  assumes "Find ''rdf:li'' node = []"
  shows "checkKeywordSpelling (Inr check) path node = []"
    and "checkKeywordSpelling (Inl err) path node =
      [Line (Func ''checkKeywordSpelling'') ERROR (SpellerFailed err)]"
  using assms by (simp_all add: checkKeywordSpelling_def)

lemma checkKeywordSpellingSvg_no_keywords:
  assumes "Items (Bag (Subject (Work (Rdf (Metadata svg))))) = []"
  shows "checkKeywordSpellingSvg (Inr check) path svg = []"
    and "checkKeywordSpellingSvg (Inl err) path svg =
      [Line (Func ''checkKeywordSpelling'') ERROR (SpellerFailed err)]"
  using assms by (simp_all add: checkKeywordSpellingSvg_def)

text \<open>
  C6. For a document without keywords, in both variants and whatever else it holds,
  \<open>checkKeywords\<close> prints the keyword-presence ERROR and \<open>checkKeywordSpelling\<close> prints no
  line about the file: with a speller it returns at the empty list and prints nothing.
  The speller is created before that test, so when it cannot be created the function
  logs that failure under its own name, for any document, and returns.
\<close>

theorem empty_keywords_presence_error_only:
  "(Find ''rdf:li'' node = [] \<longrightarrow>
      checkKeywords path node = [Line (File path) ERROR KeywordsMissing] \<and>
      checkKeywordSpelling (Inr check) path node = [] \<and>
      checkKeywordSpelling (Inl err) path node =
        [Line (Func ''checkKeywordSpelling'') ERROR (SpellerFailed err)] \<and>
      (\<forall>l \<in> set (checkKeywordSpelling newSpeller path node). \<not> isDiagnostic l)) \<and>
   (Items (Bag (Subject (Work (Rdf (Metadata svg))))) = [] \<longrightarrow>
      checkKeywordsSvg path svg = [Line (File path) ERROR KeywordsMissing] \<and>
      checkKeywordSpellingSvg (Inr check) path svg = [] \<and>
      checkKeywordSpellingSvg (Inl err) path svg =
        [Line (Func ''checkKeywordSpelling'') ERROR (SpellerFailed err)] \<and>
      (\<forall>l \<in> set (checkKeywordSpellingSvg newSpeller path svg). \<not> isDiagnostic l))"
proof (intro conjI impI)
  assume a: "Find ''rdf:li'' node = []"
  then show "checkKeywords path node = [Line (File path) ERROR KeywordsMissing]"
    by (simp add: checkKeywords_def)
  from a show "checkKeywordSpelling (Inr check) path node = []"
    by (rule checkKeywordSpelling_no_keywords)
  from a show "checkKeywordSpelling (Inl err) path node =
        [Line (Func ''checkKeywordSpelling'') ERROR (SpellerFailed err)]"
    by (rule checkKeywordSpelling_no_keywords)
  from a show "\<forall>l \<in> set (checkKeywordSpelling newSpeller path node). \<not> isDiagnostic l"
    by (cases newSpeller) (simp_all add: checkKeywordSpelling_no_keywords)
next
  assume a: "Items (Bag (Subject (Work (Rdf (Metadata svg))))) = []"
  then show "checkKeywordsSvg path svg = [Line (File path) ERROR KeywordsMissing]"
    by (simp add: checkKeywordsSvg_def)
  from a show "checkKeywordSpellingSvg (Inr check) path svg = []"
    by (rule checkKeywordSpellingSvg_no_keywords)
  from a show "checkKeywordSpellingSvg (Inl err) path svg =
        [Line (Func ''checkKeywordSpelling'') ERROR (SpellerFailed err)]"
    by (rule checkKeywordSpellingSvg_no_keywords)
  from a show "\<forall>l \<in> set (checkKeywordSpellingSvg newSpeller path svg). \<not> isDiagnostic l"
    by (cases newSpeller) (simp_all add: checkKeywordSpellingSvg_no_keywords)
qed

theorem empty_keywords_presence_error_only_witness:
  "Find ''rdf:li'' tile60 = [] \<and>
   checkKeywords ''a.svg'' tile60 = [Line (File ''a.svg'') ERROR KeywordsMissing] \<and>
   checkKeywordSpelling (Inr toySpeller) ''a.svg'' tile60 = [] \<and>
   Items (Bag (Subject (Work (Rdf (Metadata emptySvg))))) = [] \<and>
   checkKeywordsSvg ''a.svg'' emptySvg = [Line (File ''a.svg'') ERROR KeywordsMissing] \<and>
   checkKeywordSpellingSvg (Inr toySpeller) ''a.svg'' emptySvg = []"
proof -
  have a: "Find ''rdf:li'' tile60 = []"
    by (simp add: tile60_def)
  have b: "Items (Bag (Subject (Work (Rdf (Metadata emptySvg))))) = []"
    by (simp add: emptySvg_def)
  show ?thesis
    using a b
      empty_keywords_presence_error_only [of tile60 "''a.svg''" toySpeller _ _ emptySvg]
    by blast
qed

subsection \<open>Identifier\<close>

text \<open>
  C7. The variant that queries the tree reports a missing identifier exactly when the
  document has no \<open>dc:identifier\<close> element: an element that is present and empty, as in
  \<open>emptyIdentifierTile\<close>, gets no ERROR. The schema-bound variant reports exactly when
  the decoded identifier string is empty.
\<close>

theorem checkIdentifier_presence_only:
  "checkIdentifier path emptyIdentifierTile = [] \<and>
   map InnerText (Find ''dc:identifier'' emptyIdentifierTile) = [[]] \<and>
   (checkIdentifier path node = [Line (File path) ERROR IdentifierMissing]) =
     (Find ''dc:identifier'' node = []) \<and>
   checkIdentifierSvg path svg =
     (if Identifier (Work (Rdf (Metadata svg))) = []
      then [Line (File path) ERROR IdentifierMissing] else [])"
  by (auto simp: checkIdentifier_def checkIdentifierSvg_def FindOne_def emptyIdentifierTile_def
      split: list.splits)

subsection \<open>Text runs\<close>

lemma tspanWords_filter:
  "tspanWords check words misspelled =
     misspelled @ filter (\<lambda>token. \<not> check (Replace token (CHR ''/''))) words"
  by (induction words arbitrary: misspelled) auto

lemma tspanLoop_filter:
  "tspanLoop check tspans misspelled =
     misspelled @ filter (\<lambda>token. \<not> check (Replace token (CHR ''/'')))
       (concat (map (\<lambda>run. Split run (CHR '' '')) (filter (\<lambda>run. run \<noteq> []) tspans)))"
  by (induction tspans arbitrary: misspelled) (auto simp: tspanWords_filter)

lemma checkTspanSpelling_refines:
  "checkTspanSpelling (Inr check) path node =
     textRunSpelling check path (map InnerText (Find ''svg:tspan'' node))"
  by (auto simp: checkTspanSpelling_def textRunSpelling_def Let_def tspanLoop_filter)

lemma slashTile_runs:
  "map InnerText (Find ''svg:tspan'' slashTile) = [''Dra/gon lair'', '''', ''xyzzqq'', ''of qwv'']"
  by (simp add: slashTile_def)

lemma slashTile_checked:
  "checkTspanSpelling (Inr toySpeller) ''a.svg'' slashTile =
     [Line (File ''a.svg'') ERROR (TextMisspelled ''xyzzqq, qwv'')]"
  by (simp add: checkTspanSpelling_refines slashTile_runs textRunSpelling_def Replace_def
      toySpeller_def)

text \<open>
  C8. With a speller, the tree-querying \<open>checkTspanSpelling\<close> is the specified check on
  the inner texts of the \<open>svg:tspan\<close> elements: tokens split at single spaces, checked
  without their slashes, the rejected ones in one ERROR joined by \<open>", "\<close>, and no line
  when none is rejected. Without a speller it logs the failure and returns. The
  schema-bound \<open>checkTspanSpelling\<close> checks no spelling: it prints a count for every file.
\<close>

theorem checkTspanSpelling_as_specified:
  "checkTspanSpelling (Inr check) path node =
     textRunSpelling check path (map InnerText (Find ''svg:tspan'' node)) \<and>
   checkTspanSpelling (Inl err) path node =
     [Line (Func ''checkKeywordSpelling'') ERROR (SpellerFailed err)] \<and>
   checkTspanSpelling (Inr toySpeller) ''a.svg'' slashTile =
     [Line (File ''a.svg'') ERROR (TextMisspelled ''xyzzqq, qwv'')] \<and>
   checkTspanSpellingSvg path svg =
     [TextsCount path (length (Texts svg)) (length (GroupedTexts svg))]"
  using checkTspanSpelling_refines slashTile_checked
  by (simp add: checkTspanSpelling_def checkTspanSpellingSvg_def)

subsection \<open>Walking a tree\<close>

lemma runVisits_append:
  "runVisits fn (xs @ ys) =
     (case runVisits fn xs of
        (printed, Ok) \<Rightarrow> (case runVisits fn ys of (printed', r) \<Rightarrow> (printed @ printed', r))
      | (printed, r) \<Rightarrow> (printed, r))"
  by (induction xs) (auto split: prod.splits result.splits)

lemma walk_runVisits:
  "walk fn e = runVisits fn (visits e)"
  "walkEntries fn es = runVisits fn (concat (map visits es))"
  by (induction fn e and fn es rule: walk_walkEntries.induct)
     (auto simp: runVisits_append split: prod.splits result.splits)

lemma runVisits_stops:
  assumes "runVisits fn before = (printed, Ok)" "fn path err = (out, r)" "r \<noteq> Ok"
  shows "runVisits fn (before @ (path, err) # after) = (printed @ out, r)"
  using assms by (cases r) (simp_all add: runVisits_append)

lemma walk_stops:
  assumes "visits t = before @ (path, err) # after"
    "runVisits fn before = (printed, Ok)" "fn path err = (out, r)" "r \<noteq> Ok"
  shows "walk fn t = (printed @ out, r)"
  using assms by (simp add: walk_runVisits runVisits_stops)

subsection \<open>Tile Walker: what one visit does\<close>

lemma checkTilesFn_open_fails:
  assumes "Ext path = ''.svg''" "openError (files env path) = Some e"
  shows "checkTilesFn env dupDir path None =
     ((if verboseFlag env then [VisitTrace path] else []) @
      [Line (Func ''checkTiles'') ERROR (UnableToOpen path e)], Failed e)"
  using assms by (simp add: checkTilesFn_def)

lemma checkTilesFn_parse_fails:
  assumes "Ext path = ''.svg''" "openError (files env path) = None"
    "parseSvg env (files env path) = (printed, Inl e)"
  shows "printed = [Line (Func ''parseSvg'') ERROR (CouldNotParse e)]"
    and "checkTilesFn env dupDir path None =
     ((if verboseFlag env then [VisitTrace path] else []) @
      [Line (Func ''parseSvg'') ERROR (CouldNotParse e)], Failed e)"
proof -
  from assms(3) show p: "printed = [Line (Func ''parseSvg'') ERROR (CouldNotParse e)]"
    by (auto simp: parseSvg_def split: sum.splits option.splits)
  from assms p show "checkTilesFn env dupDir path None =
     ((if verboseFlag env then [VisitTrace path] else []) @
      [Line (Func ''parseSvg'') ERROR (CouldNotParse e)], Failed e)"
    by (simp add: checkTilesFn_def)
qed

lemma checkTilesFn_access_fails:
  "checkTilesFn env dupDir path (Some e) =
     ([Line (Func ''checkTiles'') ERROR (UnableToAccess path e)], Failed e)"
  by (simp add: checkTilesFn_def)

subsection \<open>Duplicate Detector\<close>

lemma extLoop_append:
  "CHR ''/'' \<notin> set xs \<Longrightarrow> CHR ''.'' \<notin> set xs \<Longrightarrow>
   extLoop (xs @ ys) seen = extLoop ys (rev xs @ seen)"
  by (induction xs arbitrary: seen) auto

lemma Ext_last_dot:
  assumes "CHR ''/'' \<notin> set ext" "CHR ''.'' \<notin> set ext"
  shows "Ext (stem @ CHR ''.'' # ext) = CHR ''.'' # ext"
  using assms extLoop_append [of "rev ext" "CHR ''.'' # rev stem" "[]"]
  by (simp add: Ext_def)

lemma Ext_no_dot:
  assumes "CHR ''/'' \<notin> set name" "CHR ''.'' \<notin> set name"
  shows "Ext (dir @ CHR ''/'' # name) = []" and "Ext name = []"
  using assms extLoop_append [of "rev name" "CHR ''/'' # rev dir" "[]"]
    extLoop_append [of "rev name" "[]" "[]"]
  by (simp_all add: Ext_def)

lemma Base_last_element:
  assumes "name \<noteq> []" "CHR ''/'' \<notin> set name"
  shows "Base (dir @ CHR ''/'' # name) = name"
proof -
  obtain c cs where r: "rev name = c # cs"
    using assms(1) by (cases "rev name") auto
  have "c \<in> set name"
    using r by (metis list.set_intros(1) set_rev)
  then have c: "c \<noteq> CHR ''/''"
    using assms(2) by auto
  have d: "dropWhile (\<lambda>c. c = CHR ''/'') (rev name @ CHR ''/'' # rev dir) =
    rev name @ CHR ''/'' # rev dir"
    using r c by simp
  have "takeWhile (\<lambda>c. c \<noteq> CHR ''/'') (rev name @ CHR ''/'' # rev dir) =
    rev name @ takeWhile (\<lambda>c. c \<noteq> CHR ''/'') (CHR ''/'' # rev dir)"
    by (rule takeWhile_append2) (use assms(2) in auto)
  then have t: "takeWhile (\<lambda>c. c \<noteq> CHR ''/'') (rev name @ CHR ''/'' # rev dir) = rev name"
    by simp
  show ?thesis
    using assms(1) d t by (simp add: Base_def Let_def)
qed

lemma Ext_examples:
  "Ext ''tiles/a.svg'' = ''.svg''" "Ext ''tiles/b.svg'' = ''.svg''" "Ext ''tiles'' = []"
  "Ext ''copies/b.SVG'' = ''.SVG''" "Ext ''copies/b.svg'' = ''.svg''"
  "Ext ''copies/other.svg'' = ''.svg''" "Ext ''copies'' = []" "Ext ''ref'' = []"
  "Ext ''ref/a.svg'' = ''.svg''" "Ext ''ref/b.svg'' = ''.svg''" "Ext ''empty'' = []"
  "Ext ''broken'' = []" "Ext ''broken/b.svg'' = ''.svg''" "Ext ''broken/c.svg'' = ''.svg''"
  "Ext ''broken/d.svg'' = ''.svg''" "Ext ''locked'' = []" "Ext ''locked/gone.svg'' = ''.svg''"
  "Ext ''locked/x.svg'' = ''.svg''" "Ext ''v1.2/readme'' = []" "Ext ''a.tar.gz'' = ''.gz''"
  by (simp_all add: Ext_def)

lemma Base_examples:
  "Base ''tiles/a.svg'' = ''a.svg''" "Base ''tiles/b.svg'' = ''b.svg''"
  "Base ''copies/b.SVG'' = ''b.SVG''" "Base ''copies/b.svg'' = ''b.svg''"
  "Base ''copies/other.svg'' = ''other.svg''" "Base ''ref/b.svg'' = ''b.svg''"
  "Base ''locked/x.svg'' = ''x.svg''" "Base ''locked/gone.svg'' = ''gone.svg''"
  "Base ''broken/b.svg'' = ''b.svg''" "Base ''tiles/zzz.svg'' = ''zzz.svg''"
  "Base [] = ''.''" "Base ''/'' = ''/''" "Base ''a/b/'' = ''b''"
  by (simp_all add: Base_def)

lemma runVisits_all_ok:
  assumes "\<forall>v \<in> set vs. snd (fn (fst v) (snd v)) = Ok"
  shows "runVisits fn vs = (concat (map (\<lambda>v. fst (fn (fst v) (snd v))) vs), Ok)"
  using assms
proof (induction vs)
  case Nil
  then show ?case by simp
next
  case (Cons v vs)
  obtain path err where v: "v = (path, err)" by (cases v)
  obtain printed r where f: "fn path err = (printed, r)" by (cases "fn path err")
  from Cons.prems v f have "r = Ok" by simp
  with Cons v f show ?case by simp
qed

lemma checkDuplicatesFn_output:
  "checkDuplicatesFn env checkPath aHash aBasename aSize path None =
     (if Ext path \<noteq> ''.svg'' then ([], Ok)
      else ((if aBasename = Base path
             then [Line (File checkPath) WARNING (DuplicateName path)] else []) @
            snd (getFileSize env path) @
            (if aSize = fst (getFileSize env path)
             then [Line (File checkPath) WARNING (DuplicateSize path)] else []) @
            snd (makeHash env path) @
            (if aHash = fst (makeHash env path)
             then [Line (File checkPath) WARNING (DuplicateHash path)] else []), Ok))"
  by (cases "getFileSize env path"; cases "makeHash env path")
     (simp add: checkDuplicatesFn_def)

lemma checkDuplicatesFn_Ok:
  "snd (checkDuplicatesFn env checkPath aHash aBasename aSize path None) = Ok"
  by (simp add: checkDuplicatesFn_output)

lemma checkDuplicatesFn_error:
  "checkDuplicatesFn env checkPath aHash aBasename aSize path (Some e) =
     ([Line (Func ''checkDuplicates'') ERROR (UnableToAccess path e)], Failed e)"
  by (simp add: checkDuplicatesFn_def)

lemma checkDuplicates_unfold:
  "checkDuplicates env checkPath dupDir =
     snd (makeHash env checkPath) @ snd (getFileSize env checkPath) @
     fst (walk (checkDuplicatesFn env checkPath (fst (makeHash env checkPath)) (Base checkPath)
            (fst (getFileSize env checkPath))) (tree env dupDir)) @
     (case snd (walk (checkDuplicatesFn env checkPath (fst (makeHash env checkPath))
            (Base checkPath) (fst (getFileSize env checkPath))) (tree env dupDir)) of
        Failed err \<Rightarrow> [Line (Func ''checkDuplicates'') ERROR (UnableToWalk dupDir err)]
      | _ \<Rightarrow> [])"
  by (cases "makeHash env checkPath"; cases "getFileSize env checkPath")
     (simp add: checkDuplicates_def split: prod.splits)

lemma checkDuplicates_no_traversal_error:
  assumes "\<forall>v \<in> set (visits (tree env dupDir)). snd v = None"
  shows "checkDuplicates env checkPath dupDir =
     snd (makeHash env checkPath) @ snd (getFileSize env checkPath) @
     concat (map (\<lambda>v. fst (checkDuplicatesFn env checkPath (fst (makeHash env checkPath))
       (Base checkPath) (fst (getFileSize env checkPath)) (fst v) None))
       (visits (tree env dupDir)))"
proof -
  let ?fn = "checkDuplicatesFn env checkPath (fst (makeHash env checkPath)) (Base checkPath)
    (fst (getFileSize env checkPath))"
  have ok: "\<forall>v \<in> set (visits (tree env dupDir)). snd (?fn (fst v) (snd v)) = Ok"
    using assms checkDuplicatesFn_Ok by simp
  have same: "map (\<lambda>v. fst (?fn (fst v) (snd v))) (visits (tree env dupDir)) =
    map (\<lambda>v. fst (?fn (fst v) None)) (visits (tree env dupDir))"
    using assms by (intro map_cong) simp_all
  have "walk ?fn (tree env dupDir) =
    (concat (map (\<lambda>v. fst (?fn (fst v) None)) (visits (tree env dupDir))), Ok)"
    using runVisits_all_ok [OF ok] same by (simp add: walk_runVisits)
  then show ?thesis
    by (simp add: checkDuplicates_unfold)
qed

lemma checkDuplicates_traversal_error:
  assumes "visits (tree env dupDir) = before @ (path, Some e) # after"
    and "\<forall>v \<in> set before. snd v = None"
  shows "checkDuplicates env checkPath dupDir =
     snd (makeHash env checkPath) @ snd (getFileSize env checkPath) @
     concat (map (\<lambda>v. fst (checkDuplicatesFn env checkPath (fst (makeHash env checkPath))
       (Base checkPath) (fst (getFileSize env checkPath)) (fst v) None)) before) @
     [Line (Func ''checkDuplicates'') ERROR (UnableToAccess path e),
      Line (Func ''checkDuplicates'') ERROR (UnableToWalk dupDir e)]"
proof -
  let ?fn = "checkDuplicatesFn env checkPath (fst (makeHash env checkPath)) (Base checkPath)
    (fst (getFileSize env checkPath))"
  have ok: "\<forall>v \<in> set before. snd (?fn (fst v) (snd v)) = Ok"
    using assms(2) checkDuplicatesFn_Ok by simp
  have same: "map (\<lambda>v. fst (?fn (fst v) (snd v))) before = map (\<lambda>v. fst (?fn (fst v) None)) before"
    using assms(2) by (intro map_cong) simp_all
  have before: "runVisits ?fn before = (concat (map (\<lambda>v. fst (?fn (fst v) None)) before), Ok)"
    using runVisits_all_ok [OF ok] same by simp
  have "walk ?fn (tree env dupDir) =
    (concat (map (\<lambda>v. fst (?fn (fst v) None)) before) @
       [Line (Func ''checkDuplicates'') ERROR (UnableToAccess path e)], Failed e)"
    by (rule walk_stops [OF assms(1) before checkDuplicatesFn_error]) simp
  then show ?thesis
    by (simp add: checkDuplicates_unfold)
qed

lemma makeHash_cases:
  "openError (files env p) = Some e \<Longrightarrow>
     makeHash env p = ([], [Line (Func ''makeHash'') ERROR (UnableToOpen p e)])"
  "openError (files env p) = None \<Longrightarrow> readError (files env p) = Some e \<Longrightarrow>
     makeHash env p = ([], [Line (Func ''makeHash'') ERROR (UnableToHash p e)])"
  "openError (files env p) = None \<Longrightarrow> readError (files env p) = None \<Longrightarrow>
     makeHash env p = (md5hex env (content (files env p)), [])"
  by (simp_all add: makeHash_def)

lemma makeHash_fails:
  "openError (files env p) \<noteq> None \<or> readError (files env p) \<noteq> None \<Longrightarrow> fst (makeHash env p) = []"
  by (auto simp: makeHash_def split: option.splits)

lemma getFileSize_cases:
  "statError (files env p) = Some e \<Longrightarrow> getFileSize env p = (0, [GetFileSizePrint p e])"
  "statError (files env p) = None \<Longrightarrow> getFileSize env p = (int (length (content (files env p))), [])"
  by (simp_all add: getFileSize_def)

lemma exampleEnv_files:
  "files exampleEnv ''tiles/a.svg'' =
     (plainFile ''tile80mm'')\<lparr>openError := Some (PathError ''permission denied'')\<rparr>"
  "files exampleEnv ''tiles/b.svg'' = plainFile ''tile60''"
  "files exampleEnv ''tiles/zzz.svg'' = missingFile"
  "files exampleEnv ''broken/b.svg'' = plainFile ''tile60''"
  "files exampleEnv ''broken/c.svg'' = plainFile ''not xml''"
  "files exampleEnv ''ref/b.svg'' = plainFile ''tile60''"
  "files exampleEnv ''copies/other.svg'' = plainFile ''tile60''"
  "files exampleEnv ''copies/b.svg'' = plainFile ''tile60''"
  "files exampleEnv ''locked/gone.svg'' = missingFile"
  "files exampleEnv ''locked/x.svg'' =
     (plainFile ''tile80mm'')\<lparr>openError := Some (PathError ''permission denied'')\<rparr>"
  by (simp_all add: exampleEnv_def)

lemma exampleEnv_tree:
  "tree exampleEnv ''tiles'' = DirEntry ''tiles'' [FileEntry ''tiles/a.svg'', FileEntry ''tiles/b.svg'']"
  "tree exampleEnv ''broken'' = DirEntry ''broken'' [FileEntry ''broken/b.svg'',
     FileEntry ''broken/c.svg'', FileEntry ''broken/d.svg'']"
  "tree exampleEnv ''ref'' = DirEntry ''ref''
     [BrokenEntry ''ref/a.svg'' (PathError ''permission denied''), FileEntry ''ref/b.svg'']"
  "tree exampleEnv ''copies'' = DirEntry ''copies'' [FileEntry ''copies/b.SVG'',
     FileEntry ''copies/b.svg'', FileEntry ''copies/other.svg'']"
  "tree exampleEnv ''locked'' = DirEntry ''locked'' [FileEntry ''locked/gone.svg'',
     FileEntry ''locked/x.svg'']"
  "tree exampleEnv ''empty'' = DirEntry ''empty'' []"
  by (simp_all add: exampleEnv_def)

lemma exampleEnv_md5hex: "md5hex exampleEnv bytes = ''md5 of '' @ bytes"
  by (simp add: exampleEnv_def)

lemma example_hashes:
  "makeHash exampleEnv ''tiles/b.svg'' = (''md5 of tile60'', [])"
  "makeHash exampleEnv ''ref/b.svg'' = (''md5 of tile60'', [])"
  "makeHash exampleEnv ''copies/b.svg'' = (''md5 of tile60'', [])"
  "makeHash exampleEnv ''copies/other.svg'' = (''md5 of tile60'', [])"
  "makeHash exampleEnv ''broken/b.svg'' = (''md5 of tile60'', [])"
  "makeHash exampleEnv ''tiles/a.svg'' =
     ([], [Line (Func ''makeHash'') ERROR (UnableToOpen ''tiles/a.svg'' (PathError ''permission denied''))])"
  "makeHash exampleEnv ''locked/x.svg'' =
     ([], [Line (Func ''makeHash'') ERROR (UnableToOpen ''locked/x.svg'' (PathError ''permission denied''))])"
  "makeHash exampleEnv ''locked/gone.svg'' =
     ([], [Line (Func ''makeHash'') ERROR (UnableToOpen ''locked/gone.svg'' (PathError ''no such file''))])"
  "makeHash exampleEnv ''tiles/zzz.svg'' =
     ([], [Line (Func ''makeHash'') ERROR (UnableToOpen ''tiles/zzz.svg'' (PathError ''no such file''))])"
  by (simp_all add: makeHash_def exampleEnv_files exampleEnv_md5hex plainFile_def missingFile_def)

lemma example_sizes:
  "getFileSize exampleEnv ''tiles/b.svg'' = (6, [])"
  "getFileSize exampleEnv ''ref/b.svg'' = (6, [])"
  "getFileSize exampleEnv ''copies/b.svg'' = (6, [])"
  "getFileSize exampleEnv ''copies/other.svg'' = (6, [])"
  "getFileSize exampleEnv ''broken/b.svg'' = (6, [])"
  "getFileSize exampleEnv ''tiles/a.svg'' = (8, [])"
  "getFileSize exampleEnv ''locked/x.svg'' = (8, [])"
  "getFileSize exampleEnv ''locked/gone.svg'' =
     (0, [GetFileSizePrint ''locked/gone.svg'' (PathError ''no such file'')])"
  "getFileSize exampleEnv ''tiles/zzz.svg'' =
     (0, [GetFileSizePrint ''tiles/zzz.svg'' (PathError ''no such file'')])"
  by (simp_all add: getFileSize_def exampleEnv_files plainFile_def missingFile_def)

text \<open>
  C9. For a path whose extension is not exactly \<open>.svg\<close> (the comparison is byte-wise, so
  \<open>.SVG\<close> is another extension), the function \<open>checkDuplicates\<close> hands to \<open>Walk\<close> returns
  at once and prints nothing. For every other path it makes three comparisons, none of
  which depends on another: the base name, the size, the digest, each printing its own
  WARNING when it matches, so one reference file can give up to three lines. For a
  reference file that holds the candidate's bytes, both read without error, the size and
  the digest match, and the name WARNING is printed exactly when the base names are
  equal. When no entry of the reference tree fails in traversal, \<open>checkDuplicates\<close>
  prints what hashing and sizing the candidate print and then these lines for every entry,
  in the order of the walk. The extension is what follows the last dot of the last path
  element, the dot included, and the base name is the last path element.
\<close>

theorem duplicates_three_axes:
  "(Ext path \<noteq> ''.svg'' \<longrightarrow>
      checkDuplicatesFn env checkPath aHash aBasename aSize path None = ([], Ok)) \<and>
   (Ext path = ''.svg'' \<longrightarrow>
      checkDuplicatesFn env checkPath aHash aBasename aSize path None =
        ((if aBasename = Base path
          then [Line (File checkPath) WARNING (DuplicateName path)] else []) @
         snd (getFileSize env path) @
         (if aSize = fst (getFileSize env path)
          then [Line (File checkPath) WARNING (DuplicateSize path)] else []) @
         snd (makeHash env path) @
         (if aHash = fst (makeHash env path)
          then [Line (File checkPath) WARNING (DuplicateHash path)] else []), Ok)) \<and>
   (Ext path = ''.svg'' \<and> content (files env path) = content (files env checkPath) \<and>
    statError (files env path) = None \<and> openError (files env path) = None \<and>
    readError (files env path) = None \<and> statError (files env checkPath) = None \<and>
    openError (files env checkPath) = None \<and> readError (files env checkPath) = None \<longrightarrow>
      checkDuplicatesFn env checkPath (fst (makeHash env checkPath)) (Base checkPath)
          (fst (getFileSize env checkPath)) path None =
        ((if Base checkPath = Base path
          then [Line (File checkPath) WARNING (DuplicateName path)] else []) @
         [Line (File checkPath) WARNING (DuplicateSize path),
          Line (File checkPath) WARNING (DuplicateHash path)], Ok)) \<and>
   ((\<forall>v \<in> set (visits (tree env dupDir)). snd v = None) \<longrightarrow>
      checkDuplicates env checkPath dupDir =
        snd (makeHash env checkPath) @ snd (getFileSize env checkPath) @
        concat (map (\<lambda>v. fst (checkDuplicatesFn env checkPath (fst (makeHash env checkPath))
          (Base checkPath) (fst (getFileSize env checkPath)) (fst v) None))
          (visits (tree env dupDir)))) \<and>
   (CHR ''/'' \<notin> set ext \<and> CHR ''.'' \<notin> set ext \<longrightarrow>
      Ext (stem @ CHR ''.'' # ext) = CHR ''.'' # ext) \<and>
   (CHR ''/'' \<notin> set name \<and> CHR ''.'' \<notin> set name \<longrightarrow> Ext (dir @ CHR ''/'' # name) = []) \<and>
   (name \<noteq> [] \<and> CHR ''/'' \<notin> set name \<longrightarrow> Base (dir @ CHR ''/'' # name) = name)"
proof (intro conjI impI)
  assume "Ext path \<noteq> ''.svg''"
  then show "checkDuplicatesFn env checkPath aHash aBasename aSize path None = ([], Ok)"
    by (simp add: checkDuplicatesFn_output)
next
  assume "Ext path = ''.svg''"
  then show "checkDuplicatesFn env checkPath aHash aBasename aSize path None =
        ((if aBasename = Base path
          then [Line (File checkPath) WARNING (DuplicateName path)] else []) @
         snd (getFileSize env path) @
         (if aSize = fst (getFileSize env path)
          then [Line (File checkPath) WARNING (DuplicateSize path)] else []) @
         snd (makeHash env path) @
         (if aHash = fst (makeHash env path)
          then [Line (File checkPath) WARNING (DuplicateHash path)] else []), Ok)"
    by (simp add: checkDuplicatesFn_output)
next
  assume a: "Ext path = ''.svg'' \<and> content (files env path) = content (files env checkPath) \<and>
    statError (files env path) = None \<and> openError (files env path) = None \<and>
    readError (files env path) = None \<and> statError (files env checkPath) = None \<and>
    openError (files env checkPath) = None \<and> readError (files env checkPath) = None"
  then show "checkDuplicatesFn env checkPath (fst (makeHash env checkPath)) (Base checkPath)
          (fst (getFileSize env checkPath)) path None =
        ((if Base checkPath = Base path
          then [Line (File checkPath) WARNING (DuplicateName path)] else []) @
         [Line (File checkPath) WARNING (DuplicateSize path),
          Line (File checkPath) WARNING (DuplicateHash path)], Ok)"
    by (simp add: checkDuplicatesFn_output makeHash_cases(3) getFileSize_cases(2))
next
  assume "\<forall>v \<in> set (visits (tree env dupDir)). snd v = None"
  then show "checkDuplicates env checkPath dupDir =
        snd (makeHash env checkPath) @ snd (getFileSize env checkPath) @
        concat (map (\<lambda>v. fst (checkDuplicatesFn env checkPath (fst (makeHash env checkPath))
          (Base checkPath) (fst (getFileSize env checkPath)) (fst v) None))
          (visits (tree env dupDir)))"
    by (rule checkDuplicates_no_traversal_error)
next
  assume "CHR ''/'' \<notin> set ext \<and> CHR ''.'' \<notin> set ext"
  then show "Ext (stem @ CHR ''.'' # ext) = CHR ''.'' # ext"
    using Ext_last_dot by blast
next
  assume "CHR ''/'' \<notin> set name \<and> CHR ''.'' \<notin> set name"
  then show "Ext (dir @ CHR ''/'' # name) = []"
    using Ext_no_dot(1) by blast
next
  assume "name \<noteq> [] \<and> CHR ''/'' \<notin> set name"
  then show "Base (dir @ CHR ''/'' # name) = name"
    using Base_last_element by blast
qed

theorem duplicates_three_axes_witness:
  "Ext (''copies/b'' @ CHR ''.'' # ''SVG'') = ''.SVG'' \<and>
   Ext (''copies'' @ CHR ''/'' # ''README'') = [] \<and>
   Base (''copies'' @ CHR ''/'' # ''other.svg'') = ''other.svg'' \<and>
   Ext ''copies/b.SVG'' = ''.SVG'' \<and>
   checkDuplicatesFn exampleEnv ''tiles/b.svg'' ''md5 of tile60'' ''b.svg'' 6 ''copies/b.SVG'' None
     = ([], Ok) \<and>
   Base ''tiles/b.svg'' = ''b.svg'' \<and> Base ''copies/other.svg'' = ''other.svg'' \<and>
   content (files exampleEnv ''copies/other.svg'') = content (files exampleEnv ''tiles/b.svg'') \<and>
   checkDuplicatesFn exampleEnv ''tiles/b.svg'' (fst (makeHash exampleEnv ''tiles/b.svg''))
       (Base ''tiles/b.svg'') (fst (getFileSize exampleEnv ''tiles/b.svg'')) ''copies/other.svg'' None
     = ([Line (File ''tiles/b.svg'') WARNING (DuplicateSize ''copies/other.svg''),
         Line (File ''tiles/b.svg'') WARNING (DuplicateHash ''copies/other.svg'')], Ok) \<and>
   checkDuplicates exampleEnv ''tiles/b.svg'' ''copies'' =
     [Line (File ''tiles/b.svg'') WARNING (DuplicateName ''copies/b.svg''),
      Line (File ''tiles/b.svg'') WARNING (DuplicateSize ''copies/b.svg''),
      Line (File ''tiles/b.svg'') WARNING (DuplicateHash ''copies/b.svg''),
      Line (File ''tiles/b.svg'') WARNING (DuplicateSize ''copies/other.svg''),
      Line (File ''tiles/b.svg'') WARNING (DuplicateHash ''copies/other.svg'')]"
proof -
  have none: "\<forall>v \<in> set (visits (tree exampleEnv ''copies'')). snd v = None"
    by (simp add: exampleEnv_tree)
  have same: "Ext ''copies/other.svg'' = ''.svg'' \<and>
    content (files exampleEnv ''copies/other.svg'') = content (files exampleEnv ''tiles/b.svg'') \<and>
    statError (files exampleEnv ''copies/other.svg'') = None \<and>
    openError (files exampleEnv ''copies/other.svg'') = None \<and>
    readError (files exampleEnv ''copies/other.svg'') = None \<and>
    statError (files exampleEnv ''tiles/b.svg'') = None \<and>
    openError (files exampleEnv ''tiles/b.svg'') = None \<and>
    readError (files exampleEnv ''tiles/b.svg'') = None"
    by (simp add: exampleEnv_files plainFile_def Ext_examples)
  have skip: "checkDuplicatesFn exampleEnv ''tiles/b.svg'' ''md5 of tile60'' ''b.svg'' 6
      ''copies/b.SVG'' None = ([], Ok)"
    using duplicates_three_axes [of "''copies/b.SVG''" exampleEnv "''tiles/b.svg''"
        "''md5 of tile60''" "''b.svg''" 6 "''copies''"]
    by (simp add: Ext_examples)
  have other: "checkDuplicatesFn exampleEnv ''tiles/b.svg'' (fst (makeHash exampleEnv ''tiles/b.svg''))
       (Base ''tiles/b.svg'') (fst (getFileSize exampleEnv ''tiles/b.svg'')) ''copies/other.svg'' None
     = ([Line (File ''tiles/b.svg'') WARNING (DuplicateSize ''copies/other.svg''),
         Line (File ''tiles/b.svg'') WARNING (DuplicateHash ''copies/other.svg'')], Ok)"
    using same duplicates_three_axes [of "''copies/other.svg''" exampleEnv "''tiles/b.svg''"
        "''md5 of tile60''" "''b.svg''" 6 "''copies''"]
    by (simp add: Base_examples)
  have whole: "checkDuplicates exampleEnv ''tiles/b.svg'' ''copies'' =
     [Line (File ''tiles/b.svg'') WARNING (DuplicateName ''copies/b.svg''),
      Line (File ''tiles/b.svg'') WARNING (DuplicateSize ''copies/b.svg''),
      Line (File ''tiles/b.svg'') WARNING (DuplicateHash ''copies/b.svg''),
      Line (File ''tiles/b.svg'') WARNING (DuplicateSize ''copies/other.svg''),
      Line (File ''tiles/b.svg'') WARNING (DuplicateHash ''copies/other.svg'')]"
    using none duplicates_three_axes [of "''copies/other.svg''" exampleEnv "''tiles/b.svg''"
        "''md5 of tile60''" "''b.svg''" 6 "''copies''"]
    by (simp add: exampleEnv_tree checkDuplicatesFn_output Ext_examples Base_examples
        example_hashes example_sizes)
  have names: "Ext (''copies/b'' @ CHR ''.'' # ''SVG'') = ''.SVG''"
    "Ext (''copies'' @ CHR ''/'' # ''README'') = []"
    "Base (''copies'' @ CHR ''/'' # ''other.svg'') = ''other.svg''"
    using duplicates_three_axes [of "''copies/other.svg''" exampleEnv "''tiles/b.svg''"
        "''md5 of tile60''" "''b.svg''" 6 "''copies''" "''SVG''" "''copies/b''" "''README''"
        "''copies''"]
      duplicates_three_axes [of "''copies/other.svg''" exampleEnv "''tiles/b.svg''"
        "''md5 of tile60''" "''b.svg''" 6 "''copies''" "''SVG''" "''copies/b''" "''other.svg''"
        "''copies''"]
    by simp_all
  show ?thesis
    using skip other whole same names by (simp add: Ext_examples Base_examples)
qed

text \<open>
  C10. \<open>makeHash\<close> prints the error and returns the empty string when the file cannot be
  opened or read; \<open>getFileSize\<close> prints and returns 0 when \<open>os.Stat\<close> fails. The comparisons
  do not tell these values from real ones: when hashing fails for the candidate and for
  a reference file, the hash WARNING is printed for that file, and when both sizes are 0
  the size WARNING is, by the function handed to \<open>Walk\<close> and so by \<open>checkDuplicates\<close> on
  any reference tree that holds the file and has no traversal error.
\<close>

theorem failed_hash_and_size_still_compared:
  "(openError (files env p) = Some e \<longrightarrow>
      makeHash env p = ([], [Line (Func ''makeHash'') ERROR (UnableToOpen p e)])) \<and>
   (openError (files env p) = None \<and> readError (files env p) = Some e \<longrightarrow>
      makeHash env p = ([], [Line (Func ''makeHash'') ERROR (UnableToHash p e)])) \<and>
   (statError (files env p) = Some e \<longrightarrow> getFileSize env p = (0, [GetFileSizePrint p e])) \<and>
   (Ext path = ''.svg'' \<and>
    (openError (files env checkPath) \<noteq> None \<or> readError (files env checkPath) \<noteq> None) \<and>
    (openError (files env path) \<noteq> None \<or> readError (files env path) \<noteq> None) \<longrightarrow>
      Line (File checkPath) WARNING (DuplicateHash path)
        \<in> set (fst (checkDuplicatesFn env checkPath (fst (makeHash env checkPath))
              (Base checkPath) (fst (getFileSize env checkPath)) path None))) \<and>
   (Ext path = ''.svg'' \<and> fst (getFileSize env checkPath) = 0 \<and> fst (getFileSize env path) = 0
      \<longrightarrow>
      Line (File checkPath) WARNING (DuplicateSize path)
        \<in> set (fst (checkDuplicatesFn env checkPath (fst (makeHash env checkPath))
              (Base checkPath) (fst (getFileSize env checkPath)) path None))) \<and>
   (Ext path = ''.svg'' \<and> (path, None) \<in> set (visits (tree env dupDir)) \<and>
    (\<forall>v \<in> set (visits (tree env dupDir)). snd v = None) \<and>
    (openError (files env checkPath) \<noteq> None \<or> readError (files env checkPath) \<noteq> None) \<and>
    (openError (files env path) \<noteq> None \<or> readError (files env path) \<noteq> None) \<longrightarrow>
      Line (File checkPath) WARNING (DuplicateHash path) \<in> set (checkDuplicates env checkPath dupDir)) \<and>
   (Ext path = ''.svg'' \<and> (path, None) \<in> set (visits (tree env dupDir)) \<and>
    (\<forall>v \<in> set (visits (tree env dupDir)). snd v = None) \<and>
    fst (getFileSize env checkPath) = 0 \<and> fst (getFileSize env path) = 0 \<longrightarrow>
      Line (File checkPath) WARNING (DuplicateSize path) \<in> set (checkDuplicates env checkPath dupDir))"
proof -
  let ?fn = "checkDuplicatesFn env checkPath (fst (makeHash env checkPath)) (Base checkPath)
    (fst (getFileSize env checkPath))"
  have hash: "Line (File checkPath) WARNING (DuplicateHash path) \<in> set (fst (?fn path None))"
    if "Ext path = ''.svg''"
      "openError (files env checkPath) \<noteq> None \<or> readError (files env checkPath) \<noteq> None"
      "openError (files env path) \<noteq> None \<or> readError (files env path) \<noteq> None"
    using that makeHash_fails [of env checkPath] makeHash_fails [of env path]
    by (simp add: checkDuplicatesFn_output)
  have size: "Line (File checkPath) WARNING (DuplicateSize path) \<in> set (fst (?fn path None))"
    if "Ext path = ''.svg''" "fst (getFileSize env checkPath) = 0" "fst (getFileSize env path) = 0"
    using that by (simp add: checkDuplicatesFn_output)
  have whole: "l \<in> set (checkDuplicates env checkPath dupDir)"
    if "(path, None) \<in> set (visits (tree env dupDir))"
      "\<forall>v \<in> set (visits (tree env dupDir)). snd v = None"
      "l \<in> set (fst (?fn path None))" for l
  proof -
    have "l \<in> set (concat (map (\<lambda>v. fst (?fn (fst v) None)) (visits (tree env dupDir))))"
      using that(1) that(3) by force
    then show ?thesis
      using checkDuplicates_no_traversal_error [OF that(2), of checkPath] by simp
  qed
  have c1: "openError (files env p) = Some e \<longrightarrow>
      makeHash env p = ([], [Line (Func ''makeHash'') ERROR (UnableToOpen p e)])"
    using makeHash_cases(1) by blast
  have c2: "openError (files env p) = None \<and> readError (files env p) = Some e \<longrightarrow>
      makeHash env p = ([], [Line (Func ''makeHash'') ERROR (UnableToHash p e)])"
    using makeHash_cases(2) by blast
  have c3: "statError (files env p) = Some e \<longrightarrow> getFileSize env p = (0, [GetFileSizePrint p e])"
    using getFileSize_cases(1) by blast
  have c4: "Ext path = ''.svg'' \<and>
    (openError (files env checkPath) \<noteq> None \<or> readError (files env checkPath) \<noteq> None) \<and>
    (openError (files env path) \<noteq> None \<or> readError (files env path) \<noteq> None) \<longrightarrow>
      Line (File checkPath) WARNING (DuplicateHash path) \<in> set (fst (?fn path None))"
    using hash by blast
  have c5: "Ext path = ''.svg'' \<and> fst (getFileSize env checkPath) = 0 \<and>
    fst (getFileSize env path) = 0 \<longrightarrow>
      Line (File checkPath) WARNING (DuplicateSize path) \<in> set (fst (?fn path None))"
    using size by blast
  have c6: "Ext path = ''.svg'' \<and> (path, None) \<in> set (visits (tree env dupDir)) \<and>
    (\<forall>v \<in> set (visits (tree env dupDir)). snd v = None) \<and>
    (openError (files env checkPath) \<noteq> None \<or> readError (files env checkPath) \<noteq> None) \<and>
    (openError (files env path) \<noteq> None \<or> readError (files env path) \<noteq> None) \<longrightarrow>
      Line (File checkPath) WARNING (DuplicateHash path) \<in> set (checkDuplicates env checkPath dupDir)"
    using hash whole by blast
  have c7: "Ext path = ''.svg'' \<and> (path, None) \<in> set (visits (tree env dupDir)) \<and>
    (\<forall>v \<in> set (visits (tree env dupDir)). snd v = None) \<and>
    fst (getFileSize env checkPath) = 0 \<and> fst (getFileSize env path) = 0 \<longrightarrow>
      Line (File checkPath) WARNING (DuplicateSize path) \<in> set (checkDuplicates env checkPath dupDir)"
    using size whole by blast
  show ?thesis
    by (intro conjI c1 c2 c3 c4 c5 c6 c7)
qed

theorem failed_hash_and_size_still_compared_witness:
  "makeHash exampleEnv ''locked/x.svg'' =
     ([], [Line (Func ''makeHash'') ERROR (UnableToOpen ''locked/x.svg'' (PathError ''permission denied''))]) \<and>
   getFileSize exampleEnv ''locked/gone.svg'' =
     (0, [GetFileSizePrint ''locked/gone.svg'' (PathError ''no such file'')]) \<and>
   Line (File ''tiles/a.svg'') WARNING (DuplicateHash ''locked/x.svg'')
     \<in> set (checkDuplicates exampleEnv ''tiles/a.svg'' ''locked'') \<and>
   Line (File ''tiles/zzz.svg'') WARNING (DuplicateSize ''locked/gone.svg'')
     \<in> set (checkDuplicates exampleEnv ''tiles/zzz.svg'' ''locked'') \<and>
   checkDuplicates exampleEnv ''tiles/zzz.svg'' ''locked'' =
     [Line (Func ''makeHash'') ERROR (UnableToOpen ''tiles/zzz.svg'' (PathError ''no such file'')),
      GetFileSizePrint ''tiles/zzz.svg'' (PathError ''no such file''),
      GetFileSizePrint ''locked/gone.svg'' (PathError ''no such file''),
      Line (File ''tiles/zzz.svg'') WARNING (DuplicateSize ''locked/gone.svg''),
      Line (Func ''makeHash'') ERROR (UnableToOpen ''locked/gone.svg'' (PathError ''no such file'')),
      Line (File ''tiles/zzz.svg'') WARNING (DuplicateHash ''locked/gone.svg''),
      Line (Func ''makeHash'') ERROR (UnableToOpen ''locked/x.svg'' (PathError ''permission denied'')),
      Line (File ''tiles/zzz.svg'') WARNING (DuplicateHash ''locked/x.svg'')]"
proof -
  have none: "\<forall>v \<in> set (visits (tree exampleEnv ''locked'')). snd v = None"
    by (simp add: exampleEnv_tree)
  have mem: "(''locked/x.svg'', None) \<in> set (visits (tree exampleEnv ''locked''))"
    "(''locked/gone.svg'', None) \<in> set (visits (tree exampleEnv ''locked''))"
    by (simp_all add: exampleEnv_tree)
  have o1: "openError (files exampleEnv ''locked/x.svg'') = Some (PathError ''permission denied'')"
    "openError (files exampleEnv ''tiles/a.svg'') = Some (PathError ''permission denied'')"
    "statError (files exampleEnv ''locked/gone.svg'') = Some (PathError ''no such file'')"
    by (simp_all add: exampleEnv_files plainFile_def missingFile_def)
  have z: "fst (getFileSize exampleEnv ''tiles/zzz.svg'') = 0"
    "fst (getFileSize exampleEnv ''locked/gone.svg'') = 0"
    by (simp_all add: example_sizes)
  have w1: "makeHash exampleEnv ''locked/x.svg'' =
     ([], [Line (Func ''makeHash'') ERROR (UnableToOpen ''locked/x.svg'' (PathError ''permission denied''))])"
    using o1 failed_hash_and_size_still_compared [of exampleEnv "''locked/x.svg''"
        "PathError ''permission denied''" "''locked/x.svg''" "''tiles/a.svg''" "''locked''"]
    by blast
  have w2: "getFileSize exampleEnv ''locked/gone.svg'' =
     (0, [GetFileSizePrint ''locked/gone.svg'' (PathError ''no such file'')])"
    using o1 failed_hash_and_size_still_compared [of exampleEnv "''locked/gone.svg''"
        "PathError ''no such file''" "''locked/x.svg''" "''tiles/a.svg''" "''locked''"]
    by blast
  have w3: "Line (File ''tiles/a.svg'') WARNING (DuplicateHash ''locked/x.svg'')
     \<in> set (checkDuplicates exampleEnv ''tiles/a.svg'' ''locked'')"
    using o1 none mem Ext_examples(18)
      failed_hash_and_size_still_compared [of exampleEnv "''locked/x.svg''"
        "PathError ''permission denied''" "''locked/x.svg''" "''tiles/a.svg''" "''locked''"]
    by simp
  have w4: "Line (File ''tiles/zzz.svg'') WARNING (DuplicateSize ''locked/gone.svg'')
     \<in> set (checkDuplicates exampleEnv ''tiles/zzz.svg'' ''locked'')"
    using z none mem Ext_examples(17)
      failed_hash_and_size_still_compared [of exampleEnv "''locked/gone.svg''"
        "PathError ''no such file''" "''locked/gone.svg''" "''tiles/zzz.svg''" "''locked''"]
    by simp
  have w5: "checkDuplicates exampleEnv ''tiles/zzz.svg'' ''locked'' =
     [Line (Func ''makeHash'') ERROR (UnableToOpen ''tiles/zzz.svg'' (PathError ''no such file'')),
      GetFileSizePrint ''tiles/zzz.svg'' (PathError ''no such file''),
      GetFileSizePrint ''locked/gone.svg'' (PathError ''no such file''),
      Line (File ''tiles/zzz.svg'') WARNING (DuplicateSize ''locked/gone.svg''),
      Line (Func ''makeHash'') ERROR (UnableToOpen ''locked/gone.svg'' (PathError ''no such file'')),
      Line (File ''tiles/zzz.svg'') WARNING (DuplicateHash ''locked/gone.svg''),
      Line (Func ''makeHash'') ERROR (UnableToOpen ''locked/x.svg'' (PathError ''permission denied'')),
      Line (File ''tiles/zzz.svg'') WARNING (DuplicateHash ''locked/x.svg'')]"
    using checkDuplicates_no_traversal_error [OF none, of "''tiles/zzz.svg''"]
    by (simp add: exampleEnv_tree checkDuplicatesFn_output Ext_examples Base_examples
        example_hashes example_sizes)
  show ?thesis
    using w1 w2 w3 w4 w5 by blast
qed

theorem reference_scan_counterexample:
  "checkDuplicates exampleEnv ''tiles/b.svg'' ''ref'' =
     [Line (Func ''checkDuplicates'') ERROR (UnableToAccess ''ref/a.svg'' (PathError ''permission denied'')),
      Line (Func ''checkDuplicates'') ERROR (UnableToWalk ''ref'' (PathError ''permission denied''))] \<and>
   tree exampleEnv ''ref'' = DirEntry ''ref''
     [BrokenEntry ''ref/a.svg'' (PathError ''permission denied''), FileEntry ''ref/b.svg''] \<and>
   checkDuplicatesFn exampleEnv ''tiles/b.svg'' (fst (makeHash exampleEnv ''tiles/b.svg''))
       (Base ''tiles/b.svg'') (fst (getFileSize exampleEnv ''tiles/b.svg'')) ''ref/b.svg'' None =
     ([Line (File ''tiles/b.svg'') WARNING (DuplicateName ''ref/b.svg''),
       Line (File ''tiles/b.svg'') WARNING (DuplicateSize ''ref/b.svg''),
       Line (File ''tiles/b.svg'') WARNING (DuplicateHash ''ref/b.svg'')], Ok) \<and>
   checkDuplicatesFn exampleEnv ''tiles/a.svg'' (fst (makeHash exampleEnv ''tiles/a.svg''))
       (Base ''tiles/a.svg'') (fst (getFileSize exampleEnv ''tiles/a.svg'')) ''locked/x.svg'' None =
     ([Line (File ''tiles/a.svg'') WARNING (DuplicateSize ''locked/x.svg''),
       Line (Func ''makeHash'') ERROR (UnableToOpen ''locked/x.svg'' (PathError ''permission denied'')),
       Line (File ''tiles/a.svg'') WARNING (DuplicateHash ''locked/x.svg'')], Ok)"
proof -
  have v: "visits (tree exampleEnv ''ref'') =
    [(''ref'', None)] @ (''ref/a.svg'', Some (PathError ''permission denied'')) # [(''ref/b.svg'', None)]"
    by (simp add: exampleEnv_tree)
  have b: "\<forall>v \<in> set [(''ref'', None :: error option)]. snd v = None"
    by simp
  have scan: "checkDuplicates exampleEnv ''tiles/b.svg'' ''ref'' =
     [Line (Func ''checkDuplicates'') ERROR (UnableToAccess ''ref/a.svg'' (PathError ''permission denied'')),
      Line (Func ''checkDuplicates'') ERROR (UnableToWalk ''ref'' (PathError ''permission denied''))]"
    using checkDuplicates_traversal_error [OF v b, of "''tiles/b.svg''"]
    by (simp add: checkDuplicatesFn_output Ext_examples example_hashes example_sizes)
  show ?thesis
    using scan
    by (simp add: exampleEnv_tree checkDuplicatesFn_output Ext_examples Base_examples
        example_hashes example_sizes)
qed

text \<open>
  C2, as amended. The function handed to \<open>Walk\<close> returns \<open>nil\<close> on every entry it was
  given without an error, whatever \<open>os.Stat\<close>, \<open>os.Open\<close> or reading did: a reference file
  that cannot be hashed is reported by \<open>makeHash\<close> and is not skipped, its name and size
  are compared and its digest counts as the empty string. So when no entry fails in
  traversal, every entry is examined. An entry that fails in traversal is reported and
  ends the scan for this candidate: \<open>checkDuplicates\<close> prints the lines of the entries
  before it, the failure, and that it was unable to walk the directory; the entries
  after it are not examined.
\<close>

theorem reference_scan_errors:
  "snd (checkDuplicatesFn env checkPath aHash aBasename aSize path None) = Ok \<and>
   (Ext path = ''.svg'' \<and> openError (files env path) = Some e \<longrightarrow>
      fst (checkDuplicatesFn env checkPath aHash aBasename aSize path None) =
        (if aBasename = Base path
         then [Line (File checkPath) WARNING (DuplicateName path)] else []) @
        snd (getFileSize env path) @
        (if aSize = fst (getFileSize env path)
         then [Line (File checkPath) WARNING (DuplicateSize path)] else []) @
        [Line (Func ''makeHash'') ERROR (UnableToOpen path e)] @
        (if aHash = [] then [Line (File checkPath) WARNING (DuplicateHash path)] else [])) \<and>
   (Ext path = ''.svg'' \<and> openError (files env path) = None \<and>
    readError (files env path) = Some e \<longrightarrow>
      fst (checkDuplicatesFn env checkPath aHash aBasename aSize path None) =
        (if aBasename = Base path
         then [Line (File checkPath) WARNING (DuplicateName path)] else []) @
        snd (getFileSize env path) @
        (if aSize = fst (getFileSize env path)
         then [Line (File checkPath) WARNING (DuplicateSize path)] else []) @
        [Line (Func ''makeHash'') ERROR (UnableToHash path e)] @
        (if aHash = [] then [Line (File checkPath) WARNING (DuplicateHash path)] else [])) \<and>
   ((\<forall>v \<in> set (visits (tree env dupDir)). snd v = None) \<longrightarrow>
      checkDuplicates env checkPath dupDir =
        snd (makeHash env checkPath) @ snd (getFileSize env checkPath) @
        concat (map (\<lambda>v. fst (checkDuplicatesFn env checkPath (fst (makeHash env checkPath))
          (Base checkPath) (fst (getFileSize env checkPath)) (fst v) None))
          (visits (tree env dupDir)))) \<and>
   (visits (tree env dupDir) = before @ (badPath, Some e) # after \<and>
    (\<forall>v \<in> set before. snd v = None) \<longrightarrow>
      checkDuplicates env checkPath dupDir =
        snd (makeHash env checkPath) @ snd (getFileSize env checkPath) @
        concat (map (\<lambda>v. fst (checkDuplicatesFn env checkPath (fst (makeHash env checkPath))
          (Base checkPath) (fst (getFileSize env checkPath)) (fst v) None)) before) @
        [Line (Func ''checkDuplicates'') ERROR (UnableToAccess badPath e),
         Line (Func ''checkDuplicates'') ERROR (UnableToWalk dupDir e)])"
proof (intro conjI impI)
  show "snd (checkDuplicatesFn env checkPath aHash aBasename aSize path None) = Ok"
    by (rule checkDuplicatesFn_Ok)
next
  assume "Ext path = ''.svg'' \<and> openError (files env path) = Some e"
  then show "fst (checkDuplicatesFn env checkPath aHash aBasename aSize path None) =
        (if aBasename = Base path
         then [Line (File checkPath) WARNING (DuplicateName path)] else []) @
        snd (getFileSize env path) @
        (if aSize = fst (getFileSize env path)
         then [Line (File checkPath) WARNING (DuplicateSize path)] else []) @
        [Line (Func ''makeHash'') ERROR (UnableToOpen path e)] @
        (if aHash = [] then [Line (File checkPath) WARNING (DuplicateHash path)] else [])"
    by (simp add: checkDuplicatesFn_output makeHash_cases(1))
next
  assume "Ext path = ''.svg'' \<and> openError (files env path) = None \<and>
    readError (files env path) = Some e"
  then show "fst (checkDuplicatesFn env checkPath aHash aBasename aSize path None) =
        (if aBasename = Base path
         then [Line (File checkPath) WARNING (DuplicateName path)] else []) @
        snd (getFileSize env path) @
        (if aSize = fst (getFileSize env path)
         then [Line (File checkPath) WARNING (DuplicateSize path)] else []) @
        [Line (Func ''makeHash'') ERROR (UnableToHash path e)] @
        (if aHash = [] then [Line (File checkPath) WARNING (DuplicateHash path)] else [])"
    by (simp add: checkDuplicatesFn_output makeHash_cases(2))
next
  assume "\<forall>v \<in> set (visits (tree env dupDir)). snd v = None"
  then show "checkDuplicates env checkPath dupDir =
        snd (makeHash env checkPath) @ snd (getFileSize env checkPath) @
        concat (map (\<lambda>v. fst (checkDuplicatesFn env checkPath (fst (makeHash env checkPath))
          (Base checkPath) (fst (getFileSize env checkPath)) (fst v) None))
          (visits (tree env dupDir)))"
    by (rule checkDuplicates_no_traversal_error)
next
  assume "visits (tree env dupDir) = before @ (badPath, Some e) # after \<and>
    (\<forall>v \<in> set before. snd v = None)"
  then show "checkDuplicates env checkPath dupDir =
        snd (makeHash env checkPath) @ snd (getFileSize env checkPath) @
        concat (map (\<lambda>v. fst (checkDuplicatesFn env checkPath (fst (makeHash env checkPath))
          (Base checkPath) (fst (getFileSize env checkPath)) (fst v) None)) before) @
        [Line (Func ''checkDuplicates'') ERROR (UnableToAccess badPath e),
         Line (Func ''checkDuplicates'') ERROR (UnableToWalk dupDir e)]"
    using checkDuplicates_traversal_error by blast
qed

theorem reference_scan_errors_witness:
  "checkDuplicates exampleEnv ''tiles/b.svg'' ''locked'' =
     [GetFileSizePrint ''locked/gone.svg'' (PathError ''no such file''),
      Line (Func ''makeHash'') ERROR (UnableToOpen ''locked/gone.svg'' (PathError ''no such file'')),
      Line (Func ''makeHash'') ERROR (UnableToOpen ''locked/x.svg'' (PathError ''permission denied''))] \<and>
   fst (checkDuplicatesFn exampleEnv ''tiles/b.svg'' ''md5 of tile60'' ''b.svg'' 6 ''locked/x.svg'' None) =
     [Line (Func ''makeHash'') ERROR (UnableToOpen ''locked/x.svg'' (PathError ''permission denied''))] \<and>
   checkDuplicates exampleEnv ''tiles/b.svg'' ''ref'' =
     [Line (Func ''checkDuplicates'') ERROR (UnableToAccess ''ref/a.svg'' (PathError ''permission denied'')),
      Line (Func ''checkDuplicates'') ERROR (UnableToWalk ''ref'' (PathError ''permission denied''))]"
proof -
  have none: "\<forall>v \<in> set (visits (tree exampleEnv ''locked'')). snd v = None"
    by (simp add: exampleEnv_tree)
  have v: "visits (tree exampleEnv ''ref'') =
    [(''ref'', None)] @ (''ref/a.svg'', Some (PathError ''permission denied'')) # [(''ref/b.svg'', None)]"
    by (simp add: exampleEnv_tree)
  have b: "\<forall>v \<in> set [(''ref'', None :: error option)]. snd v = None"
    by simp
  have o: "Ext ''locked/x.svg'' = ''.svg'' \<and>
    openError (files exampleEnv ''locked/x.svg'') = Some (PathError ''permission denied'')"
    by (simp add: Ext_examples exampleEnv_files plainFile_def)
  have w1: "checkDuplicates exampleEnv ''tiles/b.svg'' ''locked'' =
     [GetFileSizePrint ''locked/gone.svg'' (PathError ''no such file''),
      Line (Func ''makeHash'') ERROR (UnableToOpen ''locked/gone.svg'' (PathError ''no such file'')),
      Line (Func ''makeHash'') ERROR (UnableToOpen ''locked/x.svg'' (PathError ''permission denied''))]"
    using none reference_scan_errors [of exampleEnv "''tiles/b.svg''" "''md5 of tile60''" "''b.svg''"
        6 "''locked/x.svg''" "PathError ''permission denied''" "''locked''"]
    by (simp add: exampleEnv_tree checkDuplicatesFn_output Ext_examples Base_examples
        example_hashes example_sizes)
  have w2: "fst (checkDuplicatesFn exampleEnv ''tiles/b.svg'' ''md5 of tile60'' ''b.svg'' 6
      ''locked/x.svg'' None) =
     [Line (Func ''makeHash'') ERROR (UnableToOpen ''locked/x.svg'' (PathError ''permission denied''))]"
    using o reference_scan_errors [of exampleEnv "''tiles/b.svg''" "''md5 of tile60''" "''b.svg''"
        6 "''locked/x.svg''" "PathError ''permission denied''" "''locked''"]
    by (simp add: Base_examples example_sizes)
  have w3: "checkDuplicates exampleEnv ''tiles/b.svg'' ''ref'' =
     [Line (Func ''checkDuplicates'') ERROR (UnableToAccess ''ref/a.svg'' (PathError ''permission denied'')),
      Line (Func ''checkDuplicates'') ERROR (UnableToWalk ''ref'' (PathError ''permission denied''))]"
    using v b reference_scan_errors [of exampleEnv "''tiles/b.svg''" "''md5 of tile60''" "''b.svg''"
        6 "''locked/x.svg''" "PathError ''permission denied''" "''ref''" "[(''ref'', None)]"
        "''ref/a.svg''" "[(''ref/b.svg'', None)]"]
    by (simp add: checkDuplicatesFn_output Ext_examples example_hashes example_sizes)
  show ?thesis
    using w1 w2 w3 by blast
qed

subsection \<open>Tile Walker\<close>

lemma checkTilesFnSvg_open_fails:
  assumes "Ext path = ''.svg''" "openError (files env path) = Some e"
  shows "checkTilesFnSvg env dupDir path None =
     ((if verboseFlag env then [VisitTrace path] else []) @
      [Line (Func ''checkTiles'') ERROR (UnableToOpen path e)], Failed e)"
  using assms by (simp add: checkTilesFnSvg_def)

lemma checkTilesFnSvg_parse_fails:
  assumes "Ext path = ''.svg''" "openError (files env path) = None"
    "snd (parseSvgSvg env (files env path)) = Inl e"
  shows "checkTilesFnSvg env dupDir path None =
     ((if verboseFlag env then [VisitTrace path] else []) @
      [Line (Func ''parseSvg'') ERROR (CouldNotParse e)], Failed e)"
proof -
  obtain printed where p: "parseSvgSvg env (files env path) = (printed, Inl e)"
    using assms(3) by (cases "parseSvgSvg env (files env path)") simp
  then have "printed = [Line (Func ''parseSvg'') ERROR (CouldNotParse e)]"
    by (auto simp: parseSvgSvg_def split: sum.splits option.splits)
  with assms p show ?thesis
    by (simp add: checkTilesFnSvg_def)
qed

lemma checkTilesFn_parse_fails_snd:
  assumes "Ext path = ''.svg''" "openError (files env path) = None"
    "snd (parseSvg env (files env path)) = Inl e"
  shows "checkTilesFn env dupDir path None =
     ((if verboseFlag env then [VisitTrace path] else []) @
      [Line (Func ''parseSvg'') ERROR (CouldNotParse e)], Failed e)"
proof -
  obtain printed where p: "parseSvg env (files env path) = (printed, Inl e)"
    using assms(3) by (cases "parseSvg env (files env path)") simp
  from checkTilesFn_parse_fails(2) [OF assms(1) assms(2) p] show ?thesis .
qed

lemma checkTilesFnSvg_access_fails:
  "checkTilesFnSvg env dupDir path (Some e) =
     ([Line (Func ''checkTiles'') ERROR (UnableToAccess path e)], Failed e)"
  by (simp add: checkTilesFnSvg_def)

lemma checkTiles_stops:
  assumes "visits (tree env checkDir) = before @ (path, err) # after"
    "runVisits (checkTilesFn env dupDir) before = (printed, Ok)"
    "checkTilesFn env dupDir path err = (out, Failed e)"
  shows "checkTiles env checkDir dupDir =
     (printed @ out @ [Line (Func ''checkTiles'') ERROR (UnableToWalk checkDir e)], Failed e)"
proof -
  have "walk (checkTilesFn env dupDir) (tree env checkDir) = (printed @ out, Failed e)"
    by (rule walk_stops [OF assms]) simp
  then show ?thesis by (simp add: checkTiles_def)
qed

lemma checkTilesSvg_stops:
  assumes "visits (tree env checkDir) = before @ (path, err) # after"
    "runVisits (checkTilesFnSvg env dupDir) before = (printed, Ok)"
    "checkTilesFnSvg env dupDir path err = (out, Failed e)"
  shows "checkTilesSvg env checkDir dupDir =
     (printed @ out @ [Line (Func ''checkTiles'') ERROR (UnableToWalk checkDir e)], Failed e)"
proof -
  have "walk (checkTilesFnSvg env dupDir) (tree env checkDir) = (printed @ out, Failed e)"
    by (rule walk_stops [OF assms]) simp
  then show ?thesis by (simp add: checkTilesSvg_def)
qed

text \<open>
  C1, as amended. In both variants the first error ends the walk. When the entries
  before a \<open>.svg\<close> file were handled without error and the file cannot be opened, or is
  opened and cannot be parsed, \<open>checkTiles\<close> prints the lines of those entries, the report
  of the failure and that it was unable to walk the directory, and returns the error;
  the entries after the file are not visited. An error of the traversal itself, such as
  an inaccessible check directory, does the same.
\<close>

theorem checkTiles_first_error_ends_walk:
  "(visits (tree env checkDir) = before @ (path, None) # after \<and>
    runVisits (checkTilesFn env dupDir) before = (printed, Ok) \<and>
    Ext path = ''.svg'' \<and> openError (files env path) = Some e \<longrightarrow>
      checkTiles env checkDir dupDir =
        (printed @ (if verboseFlag env then [VisitTrace path] else []) @
         [Line (Func ''checkTiles'') ERROR (UnableToOpen path e),
          Line (Func ''checkTiles'') ERROR (UnableToWalk checkDir e)], Failed e)) \<and>
   (visits (tree env checkDir) = before @ (path, None) # after \<and>
    runVisits (checkTilesFn env dupDir) before = (printed, Ok) \<and>
    Ext path = ''.svg'' \<and> openError (files env path) = None \<and>
    snd (parseSvg env (files env path)) = Inl e \<longrightarrow>
      checkTiles env checkDir dupDir =
        (printed @ (if verboseFlag env then [VisitTrace path] else []) @
         [Line (Func ''parseSvg'') ERROR (CouldNotParse e),
          Line (Func ''checkTiles'') ERROR (UnableToWalk checkDir e)], Failed e)) \<and>
   (visits (tree env checkDir) = before @ (path, Some e) # after \<and>
    runVisits (checkTilesFn env dupDir) before = (printed, Ok) \<longrightarrow>
      checkTiles env checkDir dupDir =
        (printed @
         [Line (Func ''checkTiles'') ERROR (UnableToAccess path e),
          Line (Func ''checkTiles'') ERROR (UnableToWalk checkDir e)], Failed e)) \<and>
   (visits (tree env checkDir) = before @ (path, None) # after \<and>
    runVisits (checkTilesFnSvg env dupDir) before = (printed, Ok) \<and>
    Ext path = ''.svg'' \<and> openError (files env path) = Some e \<longrightarrow>
      checkTilesSvg env checkDir dupDir =
        (printed @ (if verboseFlag env then [VisitTrace path] else []) @
         [Line (Func ''checkTiles'') ERROR (UnableToOpen path e),
          Line (Func ''checkTiles'') ERROR (UnableToWalk checkDir e)], Failed e)) \<and>
   (visits (tree env checkDir) = before @ (path, None) # after \<and>
    runVisits (checkTilesFnSvg env dupDir) before = (printed, Ok) \<and>
    Ext path = ''.svg'' \<and> openError (files env path) = None \<and>
    snd (parseSvgSvg env (files env path)) = Inl e \<longrightarrow>
      checkTilesSvg env checkDir dupDir =
        (printed @ (if verboseFlag env then [VisitTrace path] else []) @
         [Line (Func ''parseSvg'') ERROR (CouldNotParse e),
          Line (Func ''checkTiles'') ERROR (UnableToWalk checkDir e)], Failed e)) \<and>
   (visits (tree env checkDir) = before @ (path, Some e) # after \<and>
    runVisits (checkTilesFnSvg env dupDir) before = (printed, Ok) \<longrightarrow>
      checkTilesSvg env checkDir dupDir =
        (printed @
         [Line (Func ''checkTiles'') ERROR (UnableToAccess path e),
          Line (Func ''checkTiles'') ERROR (UnableToWalk checkDir e)], Failed e))"
proof -
  have c1: "visits (tree env checkDir) = before @ (path, None) # after \<and>
    runVisits (checkTilesFn env dupDir) before = (printed, Ok) \<and>
    Ext path = ''.svg'' \<and> openError (files env path) = Some e \<longrightarrow>
      checkTiles env checkDir dupDir =
        (printed @ (if verboseFlag env then [VisitTrace path] else []) @
         [Line (Func ''checkTiles'') ERROR (UnableToOpen path e),
          Line (Func ''checkTiles'') ERROR (UnableToWalk checkDir e)], Failed e)"
    using checkTiles_stops [of env checkDir before path None after dupDir printed _ e]
      checkTilesFn_open_fails [of path env e dupDir] by simp
  have c2: "visits (tree env checkDir) = before @ (path, None) # after \<and>
    runVisits (checkTilesFn env dupDir) before = (printed, Ok) \<and>
    Ext path = ''.svg'' \<and> openError (files env path) = None \<and>
    snd (parseSvg env (files env path)) = Inl e \<longrightarrow>
      checkTiles env checkDir dupDir =
        (printed @ (if verboseFlag env then [VisitTrace path] else []) @
         [Line (Func ''parseSvg'') ERROR (CouldNotParse e),
          Line (Func ''checkTiles'') ERROR (UnableToWalk checkDir e)], Failed e)"
    using checkTiles_stops [of env checkDir before path None after dupDir printed _ e]
      checkTilesFn_parse_fails_snd [of path env e dupDir] by simp
  have c3: "visits (tree env checkDir) = before @ (path, Some e) # after \<and>
    runVisits (checkTilesFn env dupDir) before = (printed, Ok) \<longrightarrow>
      checkTiles env checkDir dupDir =
        (printed @
         [Line (Func ''checkTiles'') ERROR (UnableToAccess path e),
          Line (Func ''checkTiles'') ERROR (UnableToWalk checkDir e)], Failed e)"
    using checkTiles_stops [of env checkDir before path "Some e" after dupDir printed _ e]
      checkTilesFn_access_fails [of env dupDir path e] by simp
  have c4: "visits (tree env checkDir) = before @ (path, None) # after \<and>
    runVisits (checkTilesFnSvg env dupDir) before = (printed, Ok) \<and>
    Ext path = ''.svg'' \<and> openError (files env path) = Some e \<longrightarrow>
      checkTilesSvg env checkDir dupDir =
        (printed @ (if verboseFlag env then [VisitTrace path] else []) @
         [Line (Func ''checkTiles'') ERROR (UnableToOpen path e),
          Line (Func ''checkTiles'') ERROR (UnableToWalk checkDir e)], Failed e)"
    using checkTilesSvg_stops [of env checkDir before path None after dupDir printed _ e]
      checkTilesFnSvg_open_fails [of path env e dupDir] by simp
  have c5: "visits (tree env checkDir) = before @ (path, None) # after \<and>
    runVisits (checkTilesFnSvg env dupDir) before = (printed, Ok) \<and>
    Ext path = ''.svg'' \<and> openError (files env path) = None \<and>
    snd (parseSvgSvg env (files env path)) = Inl e \<longrightarrow>
      checkTilesSvg env checkDir dupDir =
        (printed @ (if verboseFlag env then [VisitTrace path] else []) @
         [Line (Func ''parseSvg'') ERROR (CouldNotParse e),
          Line (Func ''checkTiles'') ERROR (UnableToWalk checkDir e)], Failed e)"
    using checkTilesSvg_stops [of env checkDir before path None after dupDir printed _ e]
      checkTilesFnSvg_parse_fails [of path env e dupDir] by simp
  have c6: "visits (tree env checkDir) = before @ (path, Some e) # after \<and>
    runVisits (checkTilesFnSvg env dupDir) before = (printed, Ok) \<longrightarrow>
      checkTilesSvg env checkDir dupDir =
        (printed @
         [Line (Func ''checkTiles'') ERROR (UnableToAccess path e),
          Line (Func ''checkTiles'') ERROR (UnableToWalk checkDir e)], Failed e)"
    using checkTilesSvg_stops [of env checkDir before path "Some e" after dupDir printed _ e]
      checkTilesFnSvg_access_fails [of env dupDir path e] by simp
  show ?thesis
    by (intro conjI c1 c2 c3 c4 c5 c6)
qed

lemma tile60_checks:
  "checkKeywords path tile60 = [Line (File path) ERROR KeywordsMissing]"
  "checkSize path tile60 = Some [Line (File path) ERROR (WidthTooSmall (Finite 60))]"
  "checkUnits path tile60 = Some []"
  "checkIdentifier path tile60 = [Line (File path) ERROR IdentifierMissing]"
  "checkKeywordSpelling (Inr toySpeller) path tile60 = []"
  "checkTspanSpelling (Inr toySpeller) path tile60 = []"
proof -
  have f: "FindOne ''svg'' tile60 = Some tile60" "SelectAttr tile60 ''width'' = ''60''"
    "SelectAttr tile60 ''height'' = ''100''"
    by (simp_all add: tile60_def FindOne_def)
  have u: "getUnitConversion ''60'' = Finite 1" "getUnitConversion ''100'' = Finite 1"
    by (simp_all add: getUnitConversion_def HasSuffix_def)
  show "checkKeywords path tile60 = [Line (File path) ERROR KeywordsMissing]"
    by (simp add: checkKeywords_def tile60_def)
  show "checkSize path tile60 = Some [Line (File path) ERROR (WidthTooSmall (Finite 60))]"
    using f by (rule checkSize_60_100)
  show "checkUnits path tile60 = Some []"
    using f u by (simp add: checkUnits_output)
  show "checkIdentifier path tile60 = [Line (File path) ERROR IdentifierMissing]"
    by (simp add: checkIdentifier_def FindOne_def tile60_def)
  show "checkKeywordSpelling (Inr toySpeller) path tile60 = []"
    by (simp add: checkKeywordSpelling_def tile60_def)
  show "checkTspanSpelling (Inr toySpeller) path tile60 = []"
    by (simp add: checkTspanSpelling_def tile60_def)
qed

lemma svg60_checks:
  "checkKeywordsSvg path (emptySvg\<lparr>Width := ''60'', Height := ''100''\<rparr>) =
     [Line (File path) ERROR KeywordsMissing]"
  "checkSizeSvg path (emptySvg\<lparr>Width := ''60'', Height := ''100''\<rparr>) =
     [Line (File path) ERROR (WidthTooSmall (Finite 60))]"
  "checkUnitsSvg path (emptySvg\<lparr>Width := ''60'', Height := ''100''\<rparr>) = []"
  "checkIdentifierSvg path (emptySvg\<lparr>Width := ''60'', Height := ''100''\<rparr>) =
     [Line (File path) ERROR IdentifierMissing]"
  "checkKeywordSpellingSvg (Inr toySpeller) path (emptySvg\<lparr>Width := ''60'', Height := ''100''\<rparr>) = []"
  "checkTspanSpellingSvg path (emptySvg\<lparr>Width := ''60'', Height := ''100''\<rparr>) =
     [TextsCount path 0 0]"
proof -
  have u: "getUnitConversion ''60'' = Finite 1" "getUnitConversion ''100'' = Finite 1"
    by (simp_all add: getUnitConversion_def HasSuffix_def)
  show "checkKeywordsSvg path (emptySvg\<lparr>Width := ''60'', Height := ''100''\<rparr>) =
     [Line (File path) ERROR KeywordsMissing]"
    by (simp add: checkKeywordsSvg_def emptySvg_def)
  show "checkSizeSvg path (emptySvg\<lparr>Width := ''60'', Height := ''100''\<rparr>) =
     [Line (File path) ERROR (WidthTooSmall (Finite 60))]"
    by (rule checkSizeSvg_60_100) simp_all
  show "checkUnitsSvg path (emptySvg\<lparr>Width := ''60'', Height := ''100''\<rparr>) = []"
    using u by (simp add: checkUnitsSvg_def)
  show "checkIdentifierSvg path (emptySvg\<lparr>Width := ''60'', Height := ''100''\<rparr>) =
     [Line (File path) ERROR IdentifierMissing]"
    by (simp add: checkIdentifierSvg_def emptySvg_def)
  show "checkKeywordSpellingSvg (Inr toySpeller) path (emptySvg\<lparr>Width := ''60'', Height := ''100''\<rparr>) = []"
    by (simp add: checkKeywordSpellingSvg_def emptySvg_def)
  show "checkTspanSpellingSvg path (emptySvg\<lparr>Width := ''60'', Height := ''100''\<rparr>) =
     [TextsCount path 0 0]"
    by (simp add: checkTspanSpellingSvg_def emptySvg_def)
qed

lemma exampleEnv_fields:
  "verboseFlag exampleEnv = False" "NewSpeller exampleEnv = Inr toySpeller"
  "xmlqueryParse exampleEnv ''tile60'' = Inr tile60"
  "xmlqueryParse exampleEnv ''not xml'' = Inl (XMLError ''syntax error'')"
  "xmlDecode exampleEnv ''tile60'' = Inr (emptySvg\<lparr>Width := ''60'', Height := ''100''\<rparr>)"
  "xmlDecode exampleEnv ''not xml'' = Inl (XMLError ''syntax error'')"
  by (simp_all add: exampleEnv_def)

lemma example_parses:
  "parseSvg exampleEnv (plainFile ''tile60'') = ([], Inr tile60)"
  "parseSvg exampleEnv (plainFile ''not xml'') =
     ([Line (Func ''parseSvg'') ERROR (CouldNotParse (XMLError ''syntax error''))],
      Inl (XMLError ''syntax error''))"
  "parseSvgSvg exampleEnv (plainFile ''tile60'') =
     ([], Inr (emptySvg\<lparr>Width := ''60'', Height := ''100''\<rparr>))"
  "parseSvgSvg exampleEnv (plainFile ''not xml'') =
     ([Line (Func ''parseSvg'') ERROR (CouldNotParse (XMLError ''syntax error''))],
      Inl (XMLError ''syntax error''))"
  by (simp_all add: parseSvg_def parseSvgSvg_def plainFile_def exampleEnv_fields)

lemma example_no_duplicates:
  "checkDuplicates exampleEnv ''tiles/b.svg'' ''empty'' = []"
  "checkDuplicates exampleEnv ''broken/b.svg'' ''empty'' = []"
proof -
  have none: "\<forall>v \<in> set (visits (tree exampleEnv ''empty'')). snd v = None"
    by (simp add: exampleEnv_tree)
  show "checkDuplicates exampleEnv ''tiles/b.svg'' ''empty'' = []"
    using checkDuplicates_no_traversal_error [OF none, of "''tiles/b.svg''"]
    by (simp add: exampleEnv_tree checkDuplicatesFn_output Ext_examples example_hashes example_sizes)
  show "checkDuplicates exampleEnv ''broken/b.svg'' ''empty'' = []"
    using checkDuplicates_no_traversal_error [OF none, of "''broken/b.svg''"]
    by (simp add: exampleEnv_tree checkDuplicatesFn_output Ext_examples example_hashes example_sizes)
qed

lemma plainFile_fields:
  "content (plainFile bytes) = bytes" "statError (plainFile bytes) = None"
  "openError (plainFile bytes) = None" "readError (plainFile bytes) = None"
  by (simp_all add: plainFile_def)

lemma example_visit_b:
  "checkTilesFn exampleEnv ''empty'' ''tiles/b.svg'' None =
     ([Line (File ''tiles/b.svg'') ERROR KeywordsMissing,
       Line (File ''tiles/b.svg'') ERROR (WidthTooSmall (Finite 60)),
       Line (File ''tiles/b.svg'') ERROR IdentifierMissing], Ok)"
  "checkTilesFn exampleEnv ''empty'' ''broken/b.svg'' None =
     ([Line (File ''broken/b.svg'') ERROR KeywordsMissing,
       Line (File ''broken/b.svg'') ERROR (WidthTooSmall (Finite 60)),
       Line (File ''broken/b.svg'') ERROR IdentifierMissing], Ok)"
  by (simp_all add: checkTilesFn_def runChecks_def Ext_examples exampleEnv_files exampleEnv_fields
      example_parses tile60_checks example_no_duplicates plainFile_fields)

lemma example_visit_b_Svg:
  "checkTilesFnSvg exampleEnv ''empty'' ''tiles/b.svg'' None =
     ([Line (File ''tiles/b.svg'') ERROR KeywordsMissing,
       Line (File ''tiles/b.svg'') ERROR (WidthTooSmall (Finite 60)),
       Line (File ''tiles/b.svg'') ERROR IdentifierMissing,
       TextsCount ''tiles/b.svg'' 0 0], Ok)"
  "checkTilesFnSvg exampleEnv ''empty'' ''broken/b.svg'' None =
     ([Line (File ''broken/b.svg'') ERROR KeywordsMissing,
       Line (File ''broken/b.svg'') ERROR (WidthTooSmall (Finite 60)),
       Line (File ''broken/b.svg'') ERROR IdentifierMissing,
       TextsCount ''broken/b.svg'' 0 0], Ok)"
  by (simp_all add: checkTilesFnSvg_def Ext_examples exampleEnv_files exampleEnv_fields
      example_parses svg60_checks plainFile_fields)

lemma example_visit_dirs:
  "checkTilesFn exampleEnv ''empty'' ''tiles'' None = ([], Ok)"
  "checkTilesFn exampleEnv ''empty'' ''broken'' None = ([], Ok)"
  "checkTilesFnSvg exampleEnv ''empty'' ''tiles'' None = ([], Ok)"
  "checkTilesFnSvg exampleEnv ''empty'' ''broken'' None = ([], Ok)"
  by (simp_all add: checkTilesFn_def checkTilesFnSvg_def Ext_examples)

theorem file_error_ends_walk_counterexample:
  "tree exampleEnv ''tiles'' =
     DirEntry ''tiles'' [FileEntry ''tiles/a.svg'', FileEntry ''tiles/b.svg''] \<and>
   openError (files exampleEnv ''tiles/a.svg'') = Some (PathError ''permission denied'') \<and>
   checkTiles exampleEnv ''tiles'' ''empty'' =
     ([Line (Func ''checkTiles'') ERROR (UnableToOpen ''tiles/a.svg'' (PathError ''permission denied'')),
       Line (Func ''checkTiles'') ERROR (UnableToWalk ''tiles'' (PathError ''permission denied''))],
      Failed (PathError ''permission denied'')) \<and>
   checkTilesFn exampleEnv ''empty'' ''tiles/b.svg'' None =
     ([Line (File ''tiles/b.svg'') ERROR KeywordsMissing,
       Line (File ''tiles/b.svg'') ERROR (WidthTooSmall (Finite 60)),
       Line (File ''tiles/b.svg'') ERROR IdentifierMissing], Ok) \<and>
   tree exampleEnv ''broken'' =
     DirEntry ''broken'' [FileEntry ''broken/b.svg'', FileEntry ''broken/c.svg'',
       FileEntry ''broken/d.svg''] \<and>
   checkTiles exampleEnv ''broken'' ''empty'' =
     ([Line (File ''broken/b.svg'') ERROR KeywordsMissing,
       Line (File ''broken/b.svg'') ERROR (WidthTooSmall (Finite 60)),
       Line (File ''broken/b.svg'') ERROR IdentifierMissing,
       Line (Func ''parseSvg'') ERROR (CouldNotParse (XMLError ''syntax error'')),
       Line (Func ''checkTiles'') ERROR (UnableToWalk ''broken'' (XMLError ''syntax error''))],
      Failed (XMLError ''syntax error'')) \<and>
   checkTilesFn exampleEnv ''empty'' ''broken/d.svg'' None =
     ([Line (Func ''checkTiles'') ERROR (UnableToOpen ''broken/d.svg'' (PathError ''no such file''))],
      Failed (PathError ''no such file'')) \<and>
   checkTilesSvg exampleEnv ''tiles'' ''empty'' =
     ([Line (Func ''checkTiles'') ERROR (UnableToOpen ''tiles/a.svg'' (PathError ''permission denied'')),
       Line (Func ''checkTiles'') ERROR (UnableToWalk ''tiles'' (PathError ''permission denied''))],
      Failed (PathError ''permission denied'')) \<and>
   checkTilesFnSvg exampleEnv ''empty'' ''tiles/b.svg'' None =
     ([Line (File ''tiles/b.svg'') ERROR KeywordsMissing,
       Line (File ''tiles/b.svg'') ERROR (WidthTooSmall (Finite 60)),
       Line (File ''tiles/b.svg'') ERROR IdentifierMissing,
       TextsCount ''tiles/b.svg'' 0 0], Ok) \<and>
   checkTilesSvg exampleEnv ''broken'' ''empty'' =
     ([Line (File ''broken/b.svg'') ERROR KeywordsMissing,
       Line (File ''broken/b.svg'') ERROR (WidthTooSmall (Finite 60)),
       Line (File ''broken/b.svg'') ERROR IdentifierMissing,
       TextsCount ''broken/b.svg'' 0 0,
       Line (Func ''parseSvg'') ERROR (CouldNotParse (XMLError ''syntax error'')),
       Line (Func ''checkTiles'') ERROR (UnableToWalk ''broken'' (XMLError ''syntax error''))],
      Failed (XMLError ''syntax error''))"
proof -
  have vt: "visits (tree exampleEnv ''tiles'') =
    [(''tiles'', None)] @ (''tiles/a.svg'', None) # [(''tiles/b.svg'', None)]"
    by (simp add: exampleEnv_tree)
  have vb: "visits (tree exampleEnv ''broken'') =
    [(''broken'', None), (''broken/b.svg'', None)] @ (''broken/c.svg'', None) #
      [(''broken/d.svg'', None)]"
    by (simp add: exampleEnv_tree)
  have oa: "openError (files exampleEnv ''tiles/a.svg'') = Some (PathError ''permission denied'')"
    by (simp add: exampleEnv_files plainFile_def)
  have oc: "openError (files exampleEnv ''broken/c.svg'') = None"
    by (simp add: exampleEnv_files plainFile_fields)
  have pc: "snd (parseSvg exampleEnv (files exampleEnv ''broken/c.svg'')) = Inl (XMLError ''syntax error'')"
    "snd (parseSvgSvg exampleEnv (files exampleEnv ''broken/c.svg'')) = Inl (XMLError ''syntax error'')"
    by (simp_all add: exampleEnv_files example_parses)
  have od: "files exampleEnv ''broken/d.svg'' = missingFile"
    by (simp add: exampleEnv_def)
  have t1: "checkTiles exampleEnv ''tiles'' ''empty'' =
     ([Line (Func ''checkTiles'') ERROR (UnableToOpen ''tiles/a.svg'' (PathError ''permission denied'')),
       Line (Func ''checkTiles'') ERROR (UnableToWalk ''tiles'' (PathError ''permission denied''))],
      Failed (PathError ''permission denied''))"
    using checkTiles_stops [OF vt, of "''empty''" "[]" _ "PathError ''permission denied''"]
      checkTilesFn_open_fails [OF Ext_examples(1) oa, of "''empty''"]
    by (simp add: example_visit_dirs exampleEnv_fields)
  have t2: "checkTiles exampleEnv ''broken'' ''empty'' =
     ([Line (File ''broken/b.svg'') ERROR KeywordsMissing,
       Line (File ''broken/b.svg'') ERROR (WidthTooSmall (Finite 60)),
       Line (File ''broken/b.svg'') ERROR IdentifierMissing,
       Line (Func ''parseSvg'') ERROR (CouldNotParse (XMLError ''syntax error'')),
       Line (Func ''checkTiles'') ERROR (UnableToWalk ''broken'' (XMLError ''syntax error''))],
      Failed (XMLError ''syntax error''))"
    using checkTiles_stops [OF vb, of "''empty''" _ _ "XMLError ''syntax error''"]
      checkTilesFn_parse_fails_snd [OF Ext_examples(14) oc pc(1), of "''empty''"]
    by (simp add: example_visit_dirs example_visit_b exampleEnv_fields)
  have t3: "checkTilesFn exampleEnv ''empty'' ''broken/d.svg'' None =
     ([Line (Func ''checkTiles'') ERROR (UnableToOpen ''broken/d.svg'' (PathError ''no such file''))],
      Failed (PathError ''no such file''))"
    by (simp add: checkTilesFn_def Ext_examples od missingFile_def exampleEnv_fields)
  have t4: "checkTilesSvg exampleEnv ''tiles'' ''empty'' =
     ([Line (Func ''checkTiles'') ERROR (UnableToOpen ''tiles/a.svg'' (PathError ''permission denied'')),
       Line (Func ''checkTiles'') ERROR (UnableToWalk ''tiles'' (PathError ''permission denied''))],
      Failed (PathError ''permission denied''))"
    using checkTilesSvg_stops [OF vt, of "''empty''" "[]" _ "PathError ''permission denied''"]
      checkTilesFnSvg_open_fails [OF Ext_examples(1) oa, of "''empty''"]
    by (simp add: example_visit_dirs exampleEnv_fields)
  have t5: "checkTilesSvg exampleEnv ''broken'' ''empty'' =
     ([Line (File ''broken/b.svg'') ERROR KeywordsMissing,
       Line (File ''broken/b.svg'') ERROR (WidthTooSmall (Finite 60)),
       Line (File ''broken/b.svg'') ERROR IdentifierMissing,
       TextsCount ''broken/b.svg'' 0 0,
       Line (Func ''parseSvg'') ERROR (CouldNotParse (XMLError ''syntax error'')),
       Line (Func ''checkTiles'') ERROR (UnableToWalk ''broken'' (XMLError ''syntax error''))],
      Failed (XMLError ''syntax error''))"
    using checkTilesSvg_stops [OF vb, of "''empty''" _ _ "XMLError ''syntax error''"]
      checkTilesFnSvg_parse_fails [OF Ext_examples(14) oc pc(2), of "''empty''"]
    by (simp add: example_visit_dirs example_visit_b_Svg exampleEnv_fields)
  show ?thesis
    using t1 t2 t3 t4 t5 oa example_visit_b(1) example_visit_b_Svg(1)
    by (simp add: exampleEnv_tree)
qed

theorem checkTiles_first_error_ends_walk_witness:
  "checkTiles exampleEnv ''tiles'' ''empty'' =
     ([Line (Func ''checkTiles'') ERROR (UnableToOpen ''tiles/a.svg'' (PathError ''permission denied'')),
       Line (Func ''checkTiles'') ERROR (UnableToWalk ''tiles'' (PathError ''permission denied''))],
      Failed (PathError ''permission denied'')) \<and>
   checkTiles exampleEnv ''broken'' ''empty'' =
     ([Line (File ''broken/b.svg'') ERROR KeywordsMissing,
       Line (File ''broken/b.svg'') ERROR (WidthTooSmall (Finite 60)),
       Line (File ''broken/b.svg'') ERROR IdentifierMissing,
       Line (Func ''parseSvg'') ERROR (CouldNotParse (XMLError ''syntax error'')),
       Line (Func ''checkTiles'') ERROR (UnableToWalk ''broken'' (XMLError ''syntax error''))],
      Failed (XMLError ''syntax error'')) \<and>
   checkTiles exampleEnv ''nowhere'' ''empty'' =
     ([Line (Func ''checkTiles'') ERROR (UnableToAccess ''nowhere'' (PathError ''no such file'')),
       Line (Func ''checkTiles'') ERROR (UnableToWalk ''nowhere'' (PathError ''no such file''))],
      Failed (PathError ''no such file'')) \<and>
   checkTilesSvg exampleEnv ''tiles'' ''empty'' =
     ([Line (Func ''checkTiles'') ERROR (UnableToOpen ''tiles/a.svg'' (PathError ''permission denied'')),
       Line (Func ''checkTiles'') ERROR (UnableToWalk ''tiles'' (PathError ''permission denied''))],
      Failed (PathError ''permission denied'')) \<and>
   checkTilesSvg exampleEnv ''broken'' ''empty'' =
     ([Line (File ''broken/b.svg'') ERROR KeywordsMissing,
       Line (File ''broken/b.svg'') ERROR (WidthTooSmall (Finite 60)),
       Line (File ''broken/b.svg'') ERROR IdentifierMissing,
       TextsCount ''broken/b.svg'' 0 0,
       Line (Func ''parseSvg'') ERROR (CouldNotParse (XMLError ''syntax error'')),
       Line (Func ''checkTiles'') ERROR (UnableToWalk ''broken'' (XMLError ''syntax error''))],
      Failed (XMLError ''syntax error'')) \<and>
   checkTilesSvg exampleEnv ''nowhere'' ''empty'' =
     ([Line (Func ''checkTiles'') ERROR (UnableToAccess ''nowhere'' (PathError ''no such file'')),
       Line (Func ''checkTiles'') ERROR (UnableToWalk ''nowhere'' (PathError ''no such file''))],
      Failed (PathError ''no such file''))"
proof -
  have vt: "visits (tree exampleEnv ''tiles'') =
    [(''tiles'', None)] @ (''tiles/a.svg'', None) # [(''tiles/b.svg'', None)]"
    by (simp add: exampleEnv_tree)
  have vb: "visits (tree exampleEnv ''broken'') =
    [(''broken'', None), (''broken/b.svg'', None)] @ (''broken/c.svg'', None) #
      [(''broken/d.svg'', None)]"
    by (simp add: exampleEnv_tree)
  have vn: "visits (tree exampleEnv ''nowhere'') =
    [] @ (''nowhere'', Some (PathError ''no such file'')) # []"
    by (simp add: exampleEnv_def)
  have oa: "openError (files exampleEnv ''tiles/a.svg'') = Some (PathError ''permission denied'')"
    by (simp add: exampleEnv_files plainFile_def)
  have oc: "openError (files exampleEnv ''broken/c.svg'') = None"
    by (simp add: exampleEnv_files plainFile_fields)
  have pc: "snd (parseSvg exampleEnv (files exampleEnv ''broken/c.svg'')) = Inl (XMLError ''syntax error'')"
    "snd (parseSvgSvg exampleEnv (files exampleEnv ''broken/c.svg'')) = Inl (XMLError ''syntax error'')"
    by (simp_all add: exampleEnv_files example_parses)
  have rt: "runVisits (checkTilesFn exampleEnv ''empty'') [(''tiles'', None)] = ([], Ok)"
    "runVisits (checkTilesFnSvg exampleEnv ''empty'') [(''tiles'', None)] = ([], Ok)"
    by (simp_all add: example_visit_dirs)
  have rb: "runVisits (checkTilesFn exampleEnv ''empty'') [(''broken'', None), (''broken/b.svg'', None)] =
      ([Line (File ''broken/b.svg'') ERROR KeywordsMissing,
        Line (File ''broken/b.svg'') ERROR (WidthTooSmall (Finite 60)),
        Line (File ''broken/b.svg'') ERROR IdentifierMissing], Ok)"
    "runVisits (checkTilesFnSvg exampleEnv ''empty'') [(''broken'', None), (''broken/b.svg'', None)] =
      ([Line (File ''broken/b.svg'') ERROR KeywordsMissing,
        Line (File ''broken/b.svg'') ERROR (WidthTooSmall (Finite 60)),
        Line (File ''broken/b.svg'') ERROR IdentifierMissing,
        TextsCount ''broken/b.svg'' 0 0], Ok)"
    by (simp_all add: example_visit_dirs example_visit_b example_visit_b_Svg)
  have rn: "runVisits (checkTilesFn exampleEnv ''empty'') [] = ([], Ok)"
    "runVisits (checkTilesFnSvg exampleEnv ''empty'') [] = ([], Ok)"
    by simp_all
  note t = checkTiles_first_error_ends_walk [of exampleEnv "''tiles''" "[(''tiles'', None)]"
      "''tiles/a.svg''" "[(''tiles/b.svg'', None)]" "''empty''" "[]" "PathError ''permission denied''"]
  note b = checkTiles_first_error_ends_walk [of exampleEnv "''broken''"
      "[(''broken'', None), (''broken/b.svg'', None)]" "''broken/c.svg''" "[(''broken/d.svg'', None)]"
      "''empty''" "[Line (File ''broken/b.svg'') ERROR KeywordsMissing,
        Line (File ''broken/b.svg'') ERROR (WidthTooSmall (Finite 60)),
        Line (File ''broken/b.svg'') ERROR IdentifierMissing]" "XMLError ''syntax error''"]
  note b' = checkTiles_first_error_ends_walk [of exampleEnv "''broken''"
      "[(''broken'', None), (''broken/b.svg'', None)]" "''broken/c.svg''" "[(''broken/d.svg'', None)]"
      "''empty''" "[Line (File ''broken/b.svg'') ERROR KeywordsMissing,
        Line (File ''broken/b.svg'') ERROR (WidthTooSmall (Finite 60)),
        Line (File ''broken/b.svg'') ERROR IdentifierMissing,
        TextsCount ''broken/b.svg'' 0 0]" "XMLError ''syntax error''"]
  note n = checkTiles_first_error_ends_walk [of exampleEnv "''nowhere''" "[]" "''nowhere''" "[]"
      "''empty''" "[]" "PathError ''no such file''"]
  have w1: "checkTiles exampleEnv ''tiles'' ''empty'' =
     ([Line (Func ''checkTiles'') ERROR (UnableToOpen ''tiles/a.svg'' (PathError ''permission denied'')),
       Line (Func ''checkTiles'') ERROR (UnableToWalk ''tiles'' (PathError ''permission denied''))],
      Failed (PathError ''permission denied''))"
    using t vt rt oa Ext_examples(1) by (simp add: exampleEnv_fields)
  have w2: "checkTiles exampleEnv ''broken'' ''empty'' =
     ([Line (File ''broken/b.svg'') ERROR KeywordsMissing,
       Line (File ''broken/b.svg'') ERROR (WidthTooSmall (Finite 60)),
       Line (File ''broken/b.svg'') ERROR IdentifierMissing,
       Line (Func ''parseSvg'') ERROR (CouldNotParse (XMLError ''syntax error'')),
       Line (Func ''checkTiles'') ERROR (UnableToWalk ''broken'' (XMLError ''syntax error''))],
      Failed (XMLError ''syntax error''))"
    using b vb rb oc pc Ext_examples(14) by (simp add: exampleEnv_fields)
  have w3: "checkTiles exampleEnv ''nowhere'' ''empty'' =
     ([Line (Func ''checkTiles'') ERROR (UnableToAccess ''nowhere'' (PathError ''no such file'')),
       Line (Func ''checkTiles'') ERROR (UnableToWalk ''nowhere'' (PathError ''no such file''))],
      Failed (PathError ''no such file''))"
    using n vn rn by simp
  have w4: "checkTilesSvg exampleEnv ''tiles'' ''empty'' =
     ([Line (Func ''checkTiles'') ERROR (UnableToOpen ''tiles/a.svg'' (PathError ''permission denied'')),
       Line (Func ''checkTiles'') ERROR (UnableToWalk ''tiles'' (PathError ''permission denied''))],
      Failed (PathError ''permission denied''))"
    using t vt rt oa Ext_examples(1) by (simp add: exampleEnv_fields)
  have w5: "checkTilesSvg exampleEnv ''broken'' ''empty'' =
     ([Line (File ''broken/b.svg'') ERROR KeywordsMissing,
       Line (File ''broken/b.svg'') ERROR (WidthTooSmall (Finite 60)),
       Line (File ''broken/b.svg'') ERROR IdentifierMissing,
       TextsCount ''broken/b.svg'' 0 0,
       Line (Func ''parseSvg'') ERROR (CouldNotParse (XMLError ''syntax error'')),
       Line (Func ''checkTiles'') ERROR (UnableToWalk ''broken'' (XMLError ''syntax error''))],
      Failed (XMLError ''syntax error''))"
    using b' vb rb oc pc Ext_examples(14) by (simp add: exampleEnv_fields)
  have w6: "checkTilesSvg exampleEnv ''nowhere'' ''empty'' =
     ([Line (Func ''checkTiles'') ERROR (UnableToAccess ''nowhere'' (PathError ''no such file'')),
       Line (Func ''checkTiles'') ERROR (UnableToWalk ''nowhere'' (PathError ''no such file''))],
      Failed (PathError ''no such file''))"
    using n vn rn by simp
  show ?thesis
    using w1 w2 w3 w4 w5 w6 by blast
qed

end
